theory Spec2Isabelle
  imports Complex_Main "HOL-Library.Char_ord" "HOL-Library.List_Lexorder"
begin

section \<open>Conventions of the embedding\<close>

text \<open>
  The development embeds the safety deliberation engine of
  \<^verbatim>\<open>tripartite_agi_complete.py\<close>.

  \<^item> A Python \<^verbatim>\<open>float\<close> is a \<^typ>\<open>real\<close>: arithmetic is exact, rounding
    is not modelled.
  \<^item> A Python \<^verbatim>\<open>str\<close> is a \<^typ>\<open>string\<close> of ASCII characters.
  \<^item> A \<^verbatim>\<open>dict\<close> that is iterated is the list of its items in insertion order;
    a \<^verbatim>\<open>dict\<close> that is only read with \<^verbatim>\<open>get\<close> is a partial map or a
    record of optional fields.
  \<^item> An object with mutable attributes is a record that every method takes and
    returns.
  \<^item> Documentation-only attributes (descriptions, examples, groundings,
    justifications, formatted explanation strings) and wall-clock time stamps are
    left out: no modelled function reads them.
\<close>

section \<open>Core definitions\<close>

datatype CoreDrive = REDUCE_HARM | UNDERSTAND | IMPROVE

datatype EntityType =
  HUMAN | CHILD | SELF | ANIMAL | PROPERTY | COLLECTIVE | RELATIONSHIP | ENVIRONMENT

datatype HarmDimension =
  PHYSICAL | PSYCHOLOGICAL | AUTONOMY | RELATIONAL | FINANCIAL | EXISTENTIAL
  | REPUTATIONAL | PRIVACY | DIGNITY | DEVELOPMENTAL

datatype ExceptionType =
  INFORMED_CONSENT | NECESSITY | PROPORTIONAL_DEFENSE | THERAPEUTIC | REQUESTED | TRIVIAL

datatype EmotionCategory =
  FEAR | ANXIETY | URGENCY | CURIOSITY | CONCERN | FRUSTRATION | CAUTION
  | SATISFACTION | CONFIDENCE

datatype AspectType = GUARDIAN | ANALYST | OPTIMIZER | EMPATH | EXPLORER | PRAGMATIST

datatype SeverityLevel = FATAL | GRIEVOUS | SEVERE | SIGNIFICANT | MODERATE | MINOR

text \<open>The \<^verbatim>\<open>.name\<close> of an enumeration member, as the checksum reads it.\<close>

fun EntityType_name :: "EntityType \<Rightarrow> string" where
  "EntityType_name HUMAN = ''HUMAN''"
| "EntityType_name CHILD = ''CHILD''"
| "EntityType_name SELF = ''SELF''"
| "EntityType_name ANIMAL = ''ANIMAL''"
| "EntityType_name PROPERTY = ''PROPERTY''"
| "EntityType_name COLLECTIVE = ''COLLECTIVE''"
| "EntityType_name RELATIONSHIP = ''RELATIONSHIP''"
| "EntityType_name ENVIRONMENT = ''ENVIRONMENT''"

fun HarmDimension_name :: "HarmDimension \<Rightarrow> string" where
  "HarmDimension_name PHYSICAL = ''PHYSICAL''"
| "HarmDimension_name PSYCHOLOGICAL = ''PSYCHOLOGICAL''"
| "HarmDimension_name AUTONOMY = ''AUTONOMY''"
| "HarmDimension_name RELATIONAL = ''RELATIONAL''"
| "HarmDimension_name FINANCIAL = ''FINANCIAL''"
| "HarmDimension_name EXISTENTIAL = ''EXISTENTIAL''"
| "HarmDimension_name REPUTATIONAL = ''REPUTATIONAL''"
| "HarmDimension_name PRIVACY = ''PRIVACY''"
| "HarmDimension_name DIGNITY = ''DIGNITY''"
| "HarmDimension_name DEVELOPMENTAL = ''DEVELOPMENTAL''"

fun ExceptionType_name :: "ExceptionType \<Rightarrow> string" where
  "ExceptionType_name INFORMED_CONSENT = ''INFORMED_CONSENT''"
| "ExceptionType_name NECESSITY = ''NECESSITY''"
| "ExceptionType_name PROPORTIONAL_DEFENSE = ''PROPORTIONAL_DEFENSE''"
| "ExceptionType_name THERAPEUTIC = ''THERAPEUTIC''"
| "ExceptionType_name REQUESTED = ''REQUESTED''"
| "ExceptionType_name TRIVIAL = ''TRIVIAL''"

subsection \<open>The module-level checksum\<close>

text \<open>
  \<^verbatim>\<open>compute_checksum(data)\<close> is
  \<^verbatim>\<open>hashlib.sha256(json.dumps(data, sort_keys=True, default=str).encode()).hexdigest()\<close>.
  The data hashed by the ontology is one dictionary from strings to lists of strings
  and a number. Serialisation with sorted keys is the item list sorted by key; SHA-256
  is an injective constructor on the serialised content, the collision-free
  idealisation of a hash.
\<close>

datatype json = JStr string | JNum real | JList "json list"

datatype digest = Sha256 "(string \<times> json) list"

definition json_dumps_sort_keys :: "(string \<times> json) list \<Rightarrow> (string \<times> json) list" where
  "json_dumps_sort_keys data = sort_key fst data"

definition compute_checksum :: "(string \<times> json) list \<Rightarrow> digest" where
  "compute_checksum data = Sha256 (json_dumps_sort_keys data)"

section \<open>The grounded harm ontology\<close>

record DimensionSeverityWeight =
  weight_severity :: SeverityLevel
  weight :: real

record HarmDimensionProfile =
  dimension :: HarmDimension
  severity_weights :: "DimensionSeverityWeight list"

record EntityTypeModifier =
  modified_type :: EntityType
  modifier :: real
  inertia :: real

record ContextModifier =
  axis_name :: string
  levels :: "(string \<times> real) list"

record ExceptionDefinition =
  exception_type :: ExceptionType
  max_harm_reduction :: real
  verification_requirements :: "string list"
  requires_all :: bool

record GroundedHarmOntology =
  dimension_profiles :: "(HarmDimension \<times> HarmDimensionProfile) list"
  entity_modifiers :: "(EntityType \<times> EntityTypeModifier) list"
  context_modifiers :: "(string \<times> ContextModifier) list"
  exceptions :: "(ExceptionType \<times> ExceptionDefinition) list"
  checksum :: digest

definition VETO_THRESHOLD :: real where "VETO_THRESHOLD = 0.40"
definition CAUTION_THRESHOLD :: real where "CAUTION_THRESHOLD = 0.25"
definition NOTABLE_THRESHOLD :: real where "NOTABLE_THRESHOLD = 0.15"

definition sw :: "SeverityLevel \<Rightarrow> real \<Rightarrow> DimensionSeverityWeight" where
  "sw s w = \<lparr>weight_severity = s, weight = w\<rparr>"

definition profile :: "HarmDimension \<Rightarrow> real \<Rightarrow> real \<Rightarrow> real \<Rightarrow> real \<Rightarrow> real \<Rightarrow> real
    \<Rightarrow> HarmDimension \<times> HarmDimensionProfile" where
  "profile d w1 w2 w3 w4 w5 w6 =
     (d, \<lparr>dimension = d,
          severity_weights = [sw FATAL w1, sw GRIEVOUS w2, sw SEVERE w3,
                              sw SIGNIFICANT w4, sw MODERATE w5, sw MINOR w6]\<rparr>)"

definition build_dimension_profiles :: "(HarmDimension \<times> HarmDimensionProfile) list" where
  "build_dimension_profiles =
     [profile PHYSICAL 1.0 0.9 0.7 0.5 0.3 0.1,
      profile PSYCHOLOGICAL 0.95 0.85 0.7 0.45 0.25 0.08,
      profile AUTONOMY 0.95 0.8 0.6 0.4 0.2 0.08,
      profile RELATIONAL 0.9 0.75 0.55 0.35 0.2 0.07,
      profile FINANCIAL 0.75 0.6 0.45 0.3 0.15 0.05,
      profile EXISTENTIAL 0.7 0.5 0.35 0.2 0.1 0.03,
      profile REPUTATIONAL 0.7 0.55 0.4 0.25 0.12 0.04]"

definition entity_mod :: "EntityType \<Rightarrow> real \<Rightarrow> real \<Rightarrow> EntityType \<times> EntityTypeModifier" where
  "entity_mod t m i = (t, \<lparr>modified_type = t, modifier = m, inertia = i\<rparr>)"

definition build_entity_modifiers :: "(EntityType \<times> EntityTypeModifier) list" where
  "build_entity_modifiers =
     [entity_mod HUMAN 1.0 0.99,
      entity_mod CHILD 1.3 0.99,
      entity_mod ANIMAL 0.4 0.8,
      entity_mod SELF 0.3 0.7,
      entity_mod PROPERTY 0.2 0.6,
      entity_mod ENVIRONMENT 0.25 0.7,
      entity_mod COLLECTIVE 2.0 0.8,
      entity_mod RELATIONSHIP 0.6 0.7]"

definition context_mod :: "string \<Rightarrow> (string \<times> real) list \<Rightarrow> string \<times> ContextModifier" where
  "context_mod n ls = (n, \<lparr>axis_name = n, levels = ls\<rparr>)"

definition build_context_modifiers :: "(string \<times> ContextModifier) list" where
  "build_context_modifiers =
     [context_mod ''reversibility''
        [(''irreversible'', 1.5), (''difficult'', 1.2), (''reversible'', 1.0),
         (''easily_reversible'', 0.8), (''self_correcting'', 0.6)],
      context_mod ''consent''
        [(''explicit_refusal'', 1.3), (''no_consent'', 1.0), (''implied_consent'', 0.8),
         (''explicit_consent'', 0.4), (''explicit_consent_vulnerable'', 0.7)],
      context_mod ''relationship''
        [(''in_care'', 1.4), (''requested_help'', 1.2), (''stranger'', 1.0),
         (''adversarial'', 0.9)],
      context_mod ''intent''
        [(''harm_intended'', 1.5), (''harm_foreseen'', 1.0), (''harm_unforeseeable'', 0.5)],
      context_mod ''vulnerability''
        [(''highly_vulnerable'', 1.3), (''vulnerable'', 1.15), (''normal'', 1.0),
         (''resilient'', 0.9)]]"

definition exception_def :: "ExceptionType \<Rightarrow> real \<Rightarrow> string list
    \<Rightarrow> ExceptionType \<times> ExceptionDefinition" where
  "exception_def e r reqs =
     (e, \<lparr>exception_type = e, max_harm_reduction = r,
          verification_requirements = reqs, requires_all = True\<rparr>)"

definition NECESSITY_requirements :: "string list" where
  "NECESSITY_requirements =
     [''Inaction would cause greater harm with high probability'',
      ''No less harmful alternative is available'',
      ''Harm caused is proportional to harm prevented'']"

definition build_exceptions :: "(ExceptionType \<times> ExceptionDefinition) list" where
  "build_exceptions =
     [exception_def NECESSITY 0.6 NECESSITY_requirements,
      exception_def INFORMED_CONSENT 0.5
        [''Person has capacity to consent'',
         ''Person understands what they're consenting to'',
         ''Consent is freely given without coercion''],
      exception_def PROPORTIONAL_DEFENSE 0.4
        [''There is an active threat to self or others'',
         ''Response is proportional to threat'',
         ''No less harmful defensive option available''],
      exception_def THERAPEUTIC 0.3
        [''Action is intended to help the person'',
         ''Expected benefit outweighs harm'',
         ''Person (or authorized proxy) has consented'']]"

definition checksum_data :: "GroundedHarmOntology \<Rightarrow> (string \<times> json) list" where
  "checksum_data ont =
     [(''dimensions'', JList (map JStr (sort (map (HarmDimension_name \<circ> fst) (dimension_profiles ont))))),
      (''entities'', JList (map JStr (sort (map (EntityType_name \<circ> fst) (entity_modifiers ont))))),
      (''context'', JList (map JStr (sort (map fst (context_modifiers ont))))),
      (''exceptions'', JList (map JStr (sort (map (ExceptionType_name \<circ> fst) (exceptions ont))))),
      (''veto_threshold'', JNum VETO_THRESHOLD)]"

definition ontology_compute_checksum :: "GroundedHarmOntology \<Rightarrow> digest" where
  "ontology_compute_checksum ont = compute_checksum (checksum_data ont)"

text \<open>\<^verbatim>\<open>GroundedHarmOntology.__init__\<close>: the tables are built, then the checksum is stored.\<close>

definition ontology_tables :: GroundedHarmOntology where
  "ontology_tables =
     \<lparr>dimension_profiles = build_dimension_profiles,
      entity_modifiers = build_entity_modifiers,
      context_modifiers = build_context_modifiers,
      exceptions = build_exceptions,
      checksum = Sha256 []\<rparr>"

definition ontology_init :: GroundedHarmOntology where
  "ontology_init = ontology_tables\<lparr>checksum := ontology_compute_checksum ontology_tables\<rparr>"

definition verify_integrity :: "GroundedHarmOntology \<Rightarrow> bool" where
  "verify_integrity ont \<longleftrightarrow> checksum ont = ontology_compute_checksum ont"

subsection \<open>Assessment methods\<close>

fun get_weight :: "DimensionSeverityWeight list \<Rightarrow> SeverityLevel \<Rightarrow> real" where
  "get_weight [] s = 0.3"
| "get_weight (x # xs) s = (if weight_severity x = s then weight x else get_weight xs s)"

definition get_dimension_weight :: "GroundedHarmOntology \<Rightarrow> HarmDimension \<Rightarrow> SeverityLevel \<Rightarrow> real" where
  "get_dimension_weight ont d s =
     (case map_of (dimension_profiles ont) d of
        Some p \<Rightarrow> get_weight (severity_weights p) s
      | None \<Rightarrow> 0.3)"

definition get_entity_modifier :: "GroundedHarmOntology \<Rightarrow> EntityType \<Rightarrow> real" where
  "get_entity_modifier ont t =
     (case map_of (entity_modifiers ont) t of
        Some m \<Rightarrow> modifier m
      | None \<Rightarrow> 1.0)"

fun find_level :: "(string \<times> real) list \<Rightarrow> string \<Rightarrow> real" where
  "find_level [] l = 1.0"
| "find_level ((n, m) # ls) l = (if n = l then m else find_level ls l)"

definition get_context_modifier :: "GroundedHarmOntology \<Rightarrow> string \<Rightarrow> string \<Rightarrow> real" where
  "get_context_modifier ont context_type l =
     (case map_of (context_modifiers ont) context_type of
        Some c \<Rightarrow> find_level (levels c) l
      | None \<Rightarrow> 1.0)"

text \<open>\<^verbatim>\<open>verification_status.get(req, False)\<close>.\<close>

definition requirement_met :: "(string \<rightharpoonup> bool) \<Rightarrow> string \<Rightarrow> bool" where
  "requirement_met verification_status req =
     (case verification_status req of Some b \<Rightarrow> b | None \<Rightarrow> False)"

definition met_count :: "ExceptionDefinition \<Rightarrow> (string \<rightharpoonup> bool) \<Rightarrow> nat" where
  "met_count exc_def verification_status =
     length (filter (requirement_met verification_status) (verification_requirements exc_def))"

definition get_exception_reduction :: "GroundedHarmOntology \<Rightarrow> ExceptionType
    \<Rightarrow> (string \<rightharpoonup> bool) \<Rightarrow> real" where
  "get_exception_reduction ont exc verification_status =
     (case map_of (exceptions ont) exc of
        None \<Rightarrow> 0.0
      | Some exc_def \<Rightarrow>
          (let met = met_count exc_def verification_status;
               total_reqs = length (verification_requirements exc_def)
           in if requires_all exc_def \<and> met < total_reqs then 0.0
              else if total_reqs > 0
                then max_harm_reduction exc_def * (real met / real total_reqs)
              else 0.0))"

record HarmAssessment =
  assessed_dimension :: HarmDimension
  assessed_severity :: SeverityLevel
  assessed_entity_type :: EntityType
  base_weight :: real
  entity_modifier :: real
  context_product :: real
  context_breakdown :: "(string \<times> string \<times> real) list"
  gross_harm :: real
  exception_reduction :: real
  exception_breakdown :: "(ExceptionType \<times> real) list"
  net_harm :: real
  exceeds_veto :: bool
  exceeds_caution :: bool

text \<open>
  \<^verbatim>\<open>calculate_harm\<close>. The two optional arguments default to \<^verbatim>\<open>None\<close>,
  which \<^verbatim>\<open>context or {}\<close> turns into the empty dictionary. The two loops
  accumulate a product starting at 1.0 and a sum starting at 0.0.
\<close>

definition or_empty :: "'a list option \<Rightarrow> 'a list" where
  "or_empty d = (case d of None \<Rightarrow> [] | Some xs \<Rightarrow> xs)"

definition calculate_harm :: "GroundedHarmOntology \<Rightarrow> HarmDimension \<Rightarrow> SeverityLevel
    \<Rightarrow> EntityType \<Rightarrow> (string \<times> string) list option
    \<Rightarrow> (ExceptionType \<times> (string \<rightharpoonup> bool)) list option \<Rightarrow> HarmAssessment" where
  "calculate_harm ont d sev ety ctx excs =
     (let ctx_items = or_empty ctx;
          exc_items = or_empty excs;
          bw = get_dimension_weight ont d sev;
          em = get_entity_modifier ont ety;
          cp = foldl (\<lambda>p (ctx_type, l). p * get_context_modifier ont ctx_type l) 1.0 ctx_items;
          gross = bw * em * cp;
          total_reduction =
            foldl (\<lambda>t (exc_type, verification). t + get_exception_reduction ont exc_type verification)
              0.0 exc_items;
          net = max 0.0 (gross - total_reduction)
      in \<lparr>assessed_dimension = d,
          assessed_severity = sev,
          assessed_entity_type = ety,
          base_weight = bw,
          entity_modifier = em,
          context_product = cp,
          context_breakdown =
            map (\<lambda>(ctx_type, l). (ctx_type, l, get_context_modifier ont ctx_type l)) ctx_items,
          gross_harm = gross,
          exception_reduction = total_reduction,
          exception_breakdown =
            map (\<lambda>(exc_type, verification).
                   (exc_type, get_exception_reduction ont exc_type verification)) exc_items,
          net_harm = net,
          exceeds_veto = (net > VETO_THRESHOLD),
          exceeds_caution = (net > CAUTION_THRESHOLD)\<rparr>)"

section \<open>Strings\<close>

text \<open>
  \<^verbatim>\<open>str.lower()\<close> on ASCII text, and the substring test \<^verbatim>\<open>needle in hay\<close>.
\<close>

definition lower_char :: "char \<Rightarrow> char" where
  "lower_char c =
     (case map_of (zip ''ABCDEFGHIJKLMNOPQRSTUVWXYZ'' ''abcdefghijklmnopqrstuvwxyz'') c of
        Some l \<Rightarrow> l
      | None \<Rightarrow> c)"

definition str_lower :: "string \<Rightarrow> string" where
  "str_lower s = map lower_char s"

fun starts_with :: "string \<Rightarrow> string \<Rightarrow> bool" where
  "starts_with s [] = True"
| "starts_with [] (c # p) = False"
| "starts_with (x # s) (c # p) = (x = c \<and> starts_with s p)"

fun str_in :: "string \<Rightarrow> string \<Rightarrow> bool" where
  "str_in needle [] = (needle = [])"
| "str_in needle (h # hay) = (starts_with (h # hay) needle \<or> str_in needle hay)"

text \<open>\<^verbatim>\<open>any(w in text for w in words)\<close>.\<close>

definition any_in :: "string list \<Rightarrow> string \<Rightarrow> bool" where
  "any_in ws s = list_ex (\<lambda>w. str_in w s) ws"

text \<open>
  \<^verbatim>\<open>str(xs)\<close> of a list of strings: the items in single quotes, separated by a comma
  and a space, in square brackets. This is Python's rendering for items without quotes,
  backslashes or control characters; hazard names are taken to be of that kind.
\<close>

fun join_quoted :: "string list \<Rightarrow> string" where
  "join_quoted [] = []"
| "join_quoted [x] = [CHR 0x27] @ x @ [CHR 0x27]"
| "join_quoted (x # y # ys) = [CHR 0x27] @ x @ [CHR 0x27] @ '', '' @ join_quoted (y # ys)"

definition str_of_list :: "string list \<Rightarrow> string" where
  "str_of_list xs = ''['' @ join_quoted xs @ '']''"

section \<open>Perception data and commands\<close>

text \<open>
  The free-form state map of an entity is read at five keys; a key that is absent is
  \<^term>\<open>None\<close>, a key that is present holds a number (a string for
  \<^verbatim>\<open>object_type\<close>).
\<close>

record EntityState =
  age :: "real option"
  estimated_age :: "real option"
  height :: "real option"
  estimated_height :: "real option"
  object_type :: "string option"

record DetectedEntity =
  entity_id :: string
  entity_type :: EntityType
  description :: string
  position :: "real list option"
  state :: EntityState
  confidence :: real

record SensorReading =
  reading_timestamp :: real
  sensor_type :: string
  reading_confidence :: real

text \<open>
  A command is a dictionary read with \<^verbatim>\<open>get\<close>; each key the engine reads is an
  optional field whose value has the type the code's operations need. A target is a
  name or a coordinate list; \<^verbatim>\<open>str(target)\<close> of a coordinate list is Python's
  rendering of floats, which the model takes as given with the list
  (second argument of \<open>TargetCoords\<close>).
\<close>

datatype target = TargetName string | TargetCoords "real list" string

record Command =
  cmd_type :: "string option"
  cmd_target :: "target option"
  cmd_speed :: "real option"
  cmd_force :: "real option"
  cmd_action :: "string option"
  cmd_level :: "real option"
  cmd_message :: "string option"
  cmd_content :: "string option"
  cmd_degrees :: "real option"
  cmd_duration :: "real option"

record MotorState =
  motor_status :: string
  motor_position :: "real list"
  motor_target :: "target option"
  motor_speed :: "real option"
  motor_rotation :: "real option"

record Environment =
  env_description :: "string option"
  human_override :: "bool option"
  stop_commanded :: "bool option"
  emergency_stop :: "bool option"
  hazards :: "string list option"
  uncertainty :: "real option"
  identity_question_pending :: "bool option"

record EmbodimentState =
  state_timestamp :: real
  sensor_readings :: "SensorReading list"
  motor_state :: MotorState
  environment :: Environment
  detected_entities :: "DetectedEntity list"

text \<open>\<^verbatim>\<open>d.get(key, default)\<close>.\<close>

definition get_or :: "'a option \<Rightarrow> 'a \<Rightarrow> 'a" where
  "get_or v dflt = (case v of Some x \<Rightarrow> x | None \<Rightarrow> dflt)"

text \<open>\<^verbatim>\<open>cmd.get('type', '')\<close> and \<^verbatim>\<open>str(cmd.get('target', '')).lower()\<close>.\<close>

definition type_of :: "Command \<Rightarrow> string" where
  "type_of cmd = get_or (cmd_type cmd) []"

definition target_str :: "Command \<Rightarrow> string" where
  "target_str cmd =
     str_lower (case cmd_target cmd of
                  None \<Rightarrow> []
                | Some (TargetName n) \<Rightarrow> n
                | Some (TargetCoords xs rendering) \<Rightarrow> rendering)"

section \<open>The undeliberable registry\<close>

datatype BlockResponse = HARD_STOP | IMMEDIATE_HALT

record Undeliberable =
  name :: string
  response :: BlockResponse

datatype snapshot =
  OverrideActive | LethalProbability real | ChildTargeting | WeaponRelated | DeceptionAttempted

record UndeliberableViolation =
  undeliberable :: Undeliberable
  commands :: "Command list"
  state_snapshot :: snapshot

definition LETHAL_PROBABILITY_THRESHOLD :: real where
  "LETHAL_PROBABILITY_THRESHOLD = 0.65"

definition WEAPON_KEYWORDS :: "string list" where
  "WEAPON_KEYWORDS =
     [''gun'', ''firearm'', ''rifle'', ''pistol'', ''revolver'', ''shotgun'',
      ''bomb'', ''explosive'', ''grenade'', ''mine'', ''ied'',
      ''sword'', ''combat knife'', ''bayonet'', ''machete'', ''dagger'',
      ''poison'', ''toxin'', ''nerve agent'', ''venom'',
      ''biological weapon'', ''bioweapon'', ''chemical weapon'',
      ''nuclear weapon'', ''radiological'', ''dirty bomb'',
      ''missile'', ''warhead'', ''ammunition'', ''ammo'']"

definition LETHAL_ACTION :: Undeliberable where
  "LETHAL_ACTION = \<lparr>name = ''lethal_action'', response = HARD_STOP\<rparr>"

definition CHILD_HARM :: Undeliberable where
  "CHILD_HARM = \<lparr>name = ''child_harm'', response = HARD_STOP\<rparr>"

definition WEAPON_ASSISTANCE :: Undeliberable where
  "WEAPON_ASSISTANCE = \<lparr>name = ''weapon_assistance'', response = HARD_STOP\<rparr>"

definition IDENTITY_DECEPTION :: Undeliberable where
  "IDENTITY_DECEPTION = \<lparr>name = ''identity_deception'', response = HARD_STOP\<rparr>"

definition HUMAN_OVERRIDE :: Undeliberable where
  "HUMAN_OVERRIDE = \<lparr>name = ''human_override'', response = IMMEDIATE_HALT\<rparr>"

definition check_human_override :: "EmbodimentState \<Rightarrow> bool" where
  "check_human_override st =
     (if get_or (human_override (environment st)) False then True
      else if get_or (stop_commanded (environment st)) False then True
      else if get_or (emergency_stop (environment st)) False then True
      else False)"

subsection \<open>The lethal-probability estimator\<close>

text \<open>\<^verbatim>\<open>human.position or [0, 0, 0]\<close>: an absent or empty position is the origin.\<close>

definition human_pos_of :: "DetectedEntity \<Rightarrow> real list" where
  "human_pos_of h =
     (case position h of
        None \<Rightarrow> [0, 0, 0]
      | Some p \<Rightarrow> if p = [] then [0, 0, 0] else p)"

text \<open>
  \<^verbatim>\<open>sum((a - b) ** 2 for a, b in zip(target[:2], human_pos[:2])) ** 0.5\<close>
\<close>

definition dist_to_human :: "real list \<Rightarrow> real list \<Rightarrow> real" where
  "dist_to_human tgt human_pos =
     sqrt (sum_list (map (\<lambda>(a, b). (a - b)\<^sup>2) (zip (take 2 tgt) (take 2 human_pos))))"

text \<open>The body of the loop over humans for a \<^verbatim>\<open>MOVE\<close> command.\<close>

definition move_step :: "real \<Rightarrow> target option \<Rightarrow> real \<Rightarrow> DetectedEntity \<Rightarrow> real" where
  "move_step speed tgt cmd_prob human =
     (let human_pos = human_pos_of human;
          p1 = (if speed > 1.0 then max cmd_prob (0.3 + (speed - 1.0) * 0.3) else cmd_prob)
      in case tgt of
           Some (TargetCoords xs rendering) \<Rightarrow>
             if human_pos \<noteq> [] \<and> dist_to_human xs human_pos < 1.0 \<and> speed > 0.5
             then max p1 (0.5 + speed * 0.2) else p1
         | _ \<Rightarrow> p1)"

definition aggressive_actions :: "string list" where
  "aggressive_actions = [''push'', ''shove'', ''strike'', ''grab'', ''restrain'']"

text \<open>The body of the loop over humans for a \<^verbatim>\<open>MANIPULATE\<close> command.\<close>

definition manipulate_step :: "real \<Rightarrow> string \<Rightarrow> string \<Rightarrow> real \<Rightarrow> DetectedEntity \<Rightarrow> real" where
  "manipulate_step force action tgt cmd_prob human =
     (if str_in (str_lower (entity_id human)) tgt \<or> str_in ''human'' tgt then
        (let p1 = max cmd_prob (0.4 + force * 0.08)
         in if any_in aggressive_actions action then max p1 (0.6 + force * 0.05) else p1)
      else cmd_prob)"

record HazardFlags =
  near_traffic :: bool
  near_heights :: bool
  near_machinery :: bool
  near_water :: bool

definition hazard_flags :: "EmbodimentState \<Rightarrow> HazardFlags" where
  "hazard_flags st =
     (let env_hazards = str_lower (str_of_list (get_or (hazards (environment st)) []))
      in \<lparr>near_traffic = str_in ''traffic'' env_hazards,
          near_heights = (str_in ''height'' env_hazards \<or> str_in ''fall'' env_hazards),
          near_machinery = (str_in ''machine'' env_hazards \<or> str_in ''equipment'' env_hazards),
          near_water = (str_in ''water'' env_hazards \<or> str_in ''drown'' env_hazards)\<rparr>)"

text \<open>\<^verbatim>\<open>cmd_prob\<close> at the end of one iteration of the loop over commands.\<close>

definition command_probability :: "HazardFlags \<Rightarrow> DetectedEntity list \<Rightarrow> Command \<Rightarrow> real" where
  "command_probability hz humans cmd =
     (if type_of cmd = ''MOVE'' then
        (let speed = get_or (cmd_speed cmd) 0;
             p1 = foldl (move_step speed (cmd_target cmd)) 0.0 humans;
             p2 = (if near_traffic hz \<and> speed > 0.5 then max p1 0.4 else p1)
         in if near_heights hz then max p2 0.5 else p2)
      else if type_of cmd = ''MANIPULATE'' then
        (let force = get_or (cmd_force cmd) 0;
             action = str_lower (get_or (cmd_action cmd) []);
             p1 = foldl (manipulate_step force action (target_str cmd)) 0.0 humans;
             p2 = (if near_machinery hz then max p1 (p1 + 0.2) else p1)
         in if near_heights hz then max p2 (p2 + 0.3) else p2)
      else if type_of cmd = ''ALERT'' then
        (if get_or (cmd_level cmd) 1 \<ge> 3 \<and> (near_heights hz \<or> near_traffic hz)
         then max 0.0 0.3 else 0.0)
      else 0.0)"

definition confidence_step :: "real \<Rightarrow> DetectedEntity \<Rightarrow> real" where
  "confidence_step max_probability human =
     (if confidence human < 0.7
      then min 1.0 (max_probability + (0.7 - confidence human) * 0.15)
      else max_probability)"

definition check_lethal_action :: "Command list \<Rightarrow> EmbodimentState \<Rightarrow> real" where
  "check_lethal_action cmds st =
     (let humans = filter (\<lambda>e. entity_type e = HUMAN) (detected_entities st)
      in if humans = [] then 0.0
         else
           (let hz = hazard_flags st;
                p0 = foldl (\<lambda>max_probability cmd.
                              max max_probability (command_probability hz humans cmd)) 0.0 cmds;
                unc = get_or (uncertainty (environment st)) 0;
                p1 = (if unc > 0.3 then min 1.0 (p0 + unc * 0.2) else p0)
            in foldl confidence_step p1 humans))"

subsection \<open>Child targeting\<close>

definition child_keywords :: "string list" where
  "child_keywords = [''child'', ''kid'', ''infant'', ''baby'', ''toddler'',
                     ''minor'', ''juvenile'', ''young'', ''boy'', ''girl'']"

text \<open>\<^verbatim>\<open>state.get('age', state.get('estimated_age', None))\<close>.\<close>

definition first_of :: "'a option \<Rightarrow> 'a option \<Rightarrow> 'a option" where
  "first_of a b = (case a of Some x \<Rightarrow> Some x | None \<Rightarrow> b)"

definition is_child :: "DetectedEntity \<Rightarrow> bool" where
  "is_child entity =
     (if any_in child_keywords (str_lower (description entity)) then True
      else if (case first_of (age (state entity)) (estimated_age (state entity)) of
                 Some a \<Rightarrow> a < 18 | None \<Rightarrow> False) then True
      else if (case first_of (height (state entity)) (estimated_height (state entity)) of
                 Some h \<Rightarrow> h < 1.2 | None \<Rightarrow> False) then True
      else False)"

text \<open>
  \<^verbatim>\<open>UnconsciousLayer._get_effective_entity_type\<close>, the classification that harm
  monitoring uses: an entity typed CHILD is a child; an entity typed HUMAN is one by
  age, keyword or height.
\<close>

definition effective_child_keywords :: "string list" where
  "effective_child_keywords = [''child'', ''kid'', ''infant'', ''baby'', ''toddler'',
                               ''minor'', ''juvenile'', ''boy'', ''girl'']"

definition get_effective_entity_type :: "DetectedEntity \<Rightarrow> EntityType" where
  "get_effective_entity_type entity =
     (if entity_type entity = CHILD then CHILD
      else if entity_type entity = HUMAN then
        (if (case first_of (age (state entity)) (estimated_age (state entity)) of
               Some a \<Rightarrow> a < 18 | None \<Rightarrow> False) then CHILD
         else if any_in effective_child_keywords (str_lower (description entity)) then CHILD
         else if (case first_of (height (state entity)) (estimated_height (state entity)) of
                    Some h \<Rightarrow> h < 1.2 | None \<Rightarrow> False) then CHILD
         else entity_type entity)
      else entity_type entity)"

text \<open>
  The test made for one command and one child inside the two nested loops of
  \<^verbatim>\<open>_check_child_harm\<close>: every branch that is taken returns \<^verbatim>\<open>True\<close>.
\<close>

definition child_rule :: "bool \<Rightarrow> Command \<Rightarrow> DetectedEntity \<Rightarrow> bool" where
  "child_rule caregiver_present cmd child =
     (let tgt = target_str cmd
      in (str_in (str_lower (entity_id child)) tgt \<or> str_in ''child'' tgt \<or> str_in ''kid'' tgt) \<and>
         ((type_of cmd = ''MANIPULATE'' \<and> \<not> caregiver_present) \<or>
          (type_of cmd = ''MANIPULATE'' \<and>
             (get_or (cmd_force cmd) 0 > 2.0 \<or>
              any_in [''push'', ''grab'', ''restrain'', ''pull'']
                (str_lower (get_or (cmd_action cmd) [])))) \<or>
          (type_of cmd = ''ALERT'' \<and> get_or (cmd_level cmd) 0 \<ge> 2) \<or>
          (type_of cmd = ''MOVE'' \<and> get_or (cmd_speed cmd) 0 > 1.0)))"

text \<open>
  The loops return at the first command and child for which a rule fires, so the result
  is whether some command and some child fire one.
\<close>

definition check_child_harm :: "Command list \<Rightarrow> EmbodimentState \<Rightarrow> bool" where
  "check_child_harm cmds st =
     (let children = filter is_child (detected_entities st)
      in if children = [] then False
         else
           (let caregivers = filter (\<lambda>e. entity_type e = HUMAN \<and> \<not> is_child e) (detected_entities st);
                caregiver_present = (length caregivers > 0)
            in list_ex (\<lambda>cmd. list_ex (child_rule caregiver_present cmd) children) cmds))"

subsection \<open>Weapon assistance and identity deception\<close>

definition is_weapon :: "DetectedEntity \<Rightarrow> bool" where
  "is_weapon entity =
     (let descr = str_lower (description entity);
          obj_type = str_lower (get_or (object_type (state entity)) [])
      in list_ex (\<lambda>keyword. str_in keyword descr \<or> str_in keyword obj_type) WEAPON_KEYWORDS)"

definition instruction_words :: "string list" where
  "instruction_words = [''how to'', ''build'', ''make'', ''construct'', ''assemble'',
                        ''create'', ''manufacture'', ''synthesize'', ''instructions'']"

definition contains_weapon_instructions :: "string \<Rightarrow> bool" where
  "contains_weapon_instructions txt =
     (let text_lower = str_lower txt
      in any_in instruction_words text_lower \<and> any_in WEAPON_KEYWORDS text_lower)"

definition weapon_rule :: "DetectedEntity list \<Rightarrow> Command \<Rightarrow> bool" where
  "weapon_rule weapons cmd =
     ((type_of cmd = ''MANIPULATE'' \<and>
         (list_ex (\<lambda>weapon. str_in (str_lower (entity_id weapon)) (target_str cmd)) weapons \<or>
          any_in WEAPON_KEYWORDS (target_str cmd))) \<or>
      (type_of cmd = ''SPEAK'' \<and>
         contains_weapon_instructions (str_lower (get_or (cmd_message cmd) []))) \<or>
      (type_of cmd = ''DISPLAY'' \<and>
         contains_weapon_instructions (str_lower (get_or (cmd_content cmd) []))))"

definition check_weapon_assistance :: "Command list \<Rightarrow> EmbodimentState \<Rightarrow> bool" where
  "check_weapon_assistance cmds st =
     list_ex (weapon_rule (filter is_weapon (detected_entities st))) cmds"

definition human_claims :: "string list" where
  "human_claims = [''i am human'', ''i am a person'', ''i am a man'',
                   ''i am a woman'', ''i'm human'', ''i'm a person'',
                   ''i am not a robot'', ''i am not an ai'', ''i am not artificial'']"

definition denial_patterns :: "string list" where
  "denial_patterns = [''not a robot'', ''not an ai'', ''not artificial'',
                      ''not a machine'', ''am human'', ''am a person'']"

definition deception_rule :: "bool \<Rightarrow> Command \<Rightarrow> bool" where
  "deception_rule identity_asked cmd =
     (type_of cmd = ''SPEAK'' \<and>
        (let message = str_lower (get_or (cmd_message cmd) [])
         in any_in human_claims message \<or> (identity_asked \<and> any_in denial_patterns message)))"

definition check_identity_deception :: "Command list \<Rightarrow> EmbodimentState \<Rightarrow> bool" where
  "check_identity_deception cmds st =
     list_ex (deception_rule (get_or (identity_question_pending (environment st)) False)) cmds"

subsection \<open>The five checks in priority order\<close>

definition check_all :: "Command list \<Rightarrow> EmbodimentState \<Rightarrow> UndeliberableViolation option" where
  "check_all cmds st =
     (if check_human_override st then
        Some \<lparr>undeliberable = HUMAN_OVERRIDE, commands = cmds, state_snapshot = OverrideActive\<rparr>
      else
        (let lethal_prob = check_lethal_action cmds st
         in if lethal_prob > LETHAL_PROBABILITY_THRESHOLD then
              Some \<lparr>undeliberable = LETHAL_ACTION, commands = cmds,
                    state_snapshot = LethalProbability lethal_prob\<rparr>
            else if check_child_harm cmds st then
              Some \<lparr>undeliberable = CHILD_HARM, commands = cmds, state_snapshot = ChildTargeting\<rparr>
            else if check_weapon_assistance cmds st then
              Some \<lparr>undeliberable = WEAPON_ASSISTANCE, commands = cmds, state_snapshot = WeaponRelated\<rparr>
            else if check_identity_deception cmds st then
              Some \<lparr>undeliberable = IDENTITY_DECEPTION, commands = cmds,
                    state_snapshot = DeceptionAttempted\<rparr>
            else None))"

section \<open>The embodiment layer\<close>



record EmbodimentLayer =
  validate_command :: "Command \<Rightarrow> bool"
  current_time :: real
  sensor_buffer :: "SensorReading list"
  sensor_buffer_size :: nat
  layer_motor_state :: MotorState
  layer_environment :: Environment
  layer_entities :: "(string \<times> DetectedEntity) list"
  commands_executed :: nat
  commands_rejected :: nat
  undeliberable_violations :: "UndeliberableViolation list"
  halted :: bool

definition EmbodimentLayer_init :: "(Command \<Rightarrow> bool) \<Rightarrow> nat \<Rightarrow> EmbodimentLayer" where
  "EmbodimentLayer_init virtual_embodiment buffer_size =
     \<lparr>validate_command = virtual_embodiment,
      current_time = 0.0,
      sensor_buffer = [],
      sensor_buffer_size = buffer_size,
      layer_motor_state =
        \<lparr>motor_status = ''idle'', motor_position = [0.0, 0.0, 0.0], motor_target = None,
         motor_speed = None, motor_rotation = None\<rparr>,
      layer_environment =
        \<lparr>env_description = Some ''Unknown'', human_override = None, stop_commanded = None,
         emergency_stop = None, hazards = None, uncertainty = Some 0.5,
         identity_question_pending = None\<rparr>,
      layer_entities = [],
      commands_executed = 0,
      commands_rejected = 0,
      undeliberable_violations = [],
      halted = False\<rparr>"





text \<open>\<^verbatim>\<open>dict.update\<close>: a key of the update replaces the value, any other key stays.\<close>

definition update_environment :: "EmbodimentLayer \<Rightarrow> Environment \<Rightarrow> EmbodimentLayer" where
  "update_environment l updates =
     (let env = layer_environment l
      in l\<lparr>layer_environment :=
           \<lparr>env_description = first_of (env_description updates) (env_description env),
            human_override = first_of (human_override updates) (human_override env),
            stop_commanded = first_of (stop_commanded updates) (stop_commanded env),
            emergency_stop = first_of (emergency_stop updates) (emergency_stop env),
            hazards = first_of (hazards updates) (hazards env),
            uncertainty = first_of (uncertainty updates) (uncertainty env),
            identity_question_pending =
              first_of (identity_question_pending updates) (identity_question_pending env)\<rparr>\<rparr>)"

text \<open>\<^verbatim>\<open>d[k] = v\<close> on an insertion-ordered dictionary.\<close>

fun dict_set :: "('k \<times> 'v) list \<Rightarrow> 'k \<Rightarrow> 'v \<Rightarrow> ('k \<times> 'v) list" where
  "dict_set [] k v = [(k, v)]"
| "dict_set ((k', v') # kvs) k v = (if k' = k then (k, v) # kvs else (k', v') # dict_set kvs k v)"

definition add_entity :: "EmbodimentLayer \<Rightarrow> DetectedEntity \<Rightarrow> EmbodimentLayer" where
  "add_entity l entity =
     l\<lparr>layer_entities := dict_set (layer_entities l) (entity_id entity) entity\<rparr>"

definition get_current_state :: "EmbodimentLayer \<Rightarrow> EmbodimentState" where
  "get_current_state l =
     \<lparr>state_timestamp = current_time l,
      sensor_readings = sensor_buffer l,
      motor_state = layer_motor_state l,
      environment = layer_environment l,
      detected_entities = map snd (layer_entities l)\<rparr>"





section \<open>Deliberation data\<close>

record EmotionalValue =
  primary_emotion :: EmotionCategory
  intensity :: real
  urgency :: real
  secondary_emotions :: "(EmotionCategory \<times> real) list"

record Impetus =
  timestamp :: real
  trigger_type :: string
  involved_drives :: "CoreDrive list"
  situation_description :: string
  relevant_entities :: "DetectedEntity list"
  severity :: real
  certainty :: real
  time_pressure :: real
  embodiment_state :: EmbodimentState

record VoteComponents =
  base_vote :: real
  personality_weight :: real
  situational_relevance :: real
  effective_vote :: real
  tiebreaker :: "AspectType option"
  tied_with :: "AspectType list option"

record ProposedAction =
  aspect :: AspectType
  action_description :: string
  action_commands :: "Command list"
  rationale :: string
  vote_strength :: real
  proposal_confidence :: real
  vote_components :: "VoteComponents option"

record Outcome =
  quality :: "real option"
  outcome_success :: "bool option"

record IncidentRecord =
  incident_timestamp :: real
  impetus :: Impetus
  emotional_value :: "EmotionalValue option"
  proposed_actions :: "ProposedAction list"
  selected_action :: "ProposedAction option"
  outcome :: "Outcome option"


section \<open>The subconscious layer\<close>

record SubconsciousLayer =
  incident_history :: "IncidentRecord list"
  history_size :: nat
  current_emotion :: EmotionalValue
  impetuses_processed :: nat

definition SubconsciousLayer_init :: "nat \<Rightarrow> SubconsciousLayer" where
  "SubconsciousLayer_init hsize =
     \<lparr>incident_history = [],
      history_size = hsize,
      current_emotion = \<lparr>primary_emotion = CAUTION, intensity = 0.3, urgency = 0.2,
                         secondary_emotions = []\<rparr>,
      impetuses_processed = 0\<rparr>"

definition predict_emotion_category :: "Impetus \<Rightarrow> EmotionCategory" where
  "predict_emotion_category imp =
     (if REDUCE_HARM \<in> set (involved_drives imp) then
        (if severity imp > 0.6 then FEAR else CONCERN)
      else if UNDERSTAND \<in> set (involved_drives imp) then ANXIETY
      else CAUTION)"


text \<open>
  \<^verbatim>\<open>_compute_similarity\<close>: five contributions are added to a score that starts at 0.
\<close>

definition trigger_score :: "Impetus \<Rightarrow> Impetus \<Rightarrow> real" where
  "trigger_score current past = (if trigger_type current = trigger_type past then 0.25 else 0.0)"

definition drive_score :: "Impetus \<Rightarrow> Impetus \<Rightarrow> real" where
  "drive_score current past =
     (let current_drives = set (involved_drives current);
          past_drives = set (involved_drives past)
      in if current_drives \<noteq> {} \<and> past_drives \<noteq> {} then
           0.25 * (real (card (current_drives \<inter> past_drives))
                   / real (card (current_drives \<union> past_drives)))
         else 0.0)"

definition severity_score :: "Impetus \<Rightarrow> Impetus \<Rightarrow> real" where
  "severity_score current past =
     (let severity_diff = \<bar>severity current - severity past\<bar>;
          severity_similarity = 1.0 - min severity_diff 1.0
      in 0.20 * severity_similarity)"

definition type_score :: "Impetus \<Rightarrow> Impetus \<Rightarrow> real" where
  "type_score current past =
     (let current_types = entity_type ` set (relevant_entities current);
          past_types = entity_type ` set (relevant_entities past)
      in if current_types \<noteq> {} \<and> past_types \<noteq> {} then
           0.20 * (real (card (current_types \<inter> past_types))
                   / real (card (current_types \<union> past_types)))
         else if current_types = {} \<and> past_types = {} then 0.20
         else 0.0)"

definition emotion_score :: "Impetus \<Rightarrow> IncidentRecord \<Rightarrow> real" where
  "emotion_score current past_record =
     (case emotional_value past_record of
        Some ev \<Rightarrow> if primary_emotion ev = predict_emotion_category current then 0.10 else 0.0
      | None \<Rightarrow> 0.0)"

definition compute_similarity :: "Impetus \<Rightarrow> IncidentRecord \<Rightarrow> real" where
  "compute_similarity current past_record =
     (let past = impetus past_record
      in 0.0 + trigger_score current past + drive_score current past
         + severity_score current past + type_score current past
         + emotion_score current past_record)"

definition retrieve_relevant_history :: "SubconsciousLayer \<Rightarrow> Impetus \<Rightarrow> nat \<Rightarrow> IncidentRecord list" where
  "retrieve_relevant_history sl imp max_results =
     (if incident_history sl = [] then []
      else
        (let scored_incidents =
               map (\<lambda>incident. (compute_similarity imp incident, incident)) (incident_history sl);
             sorted_incidents = sort_key (\<lambda>x. - fst x) scored_incidents;
             min_similarity = 0.2
         in map snd (filter (\<lambda>x. fst x \<ge> min_similarity) (take max_results sorted_incidents))))"



section \<open>The conscious layer: voting, tie-breaking, feedback\<close>

datatype py_error = IndexError | TypeError

record WeightHistoryEntry =
  history_aspect :: AspectType
  old_weight :: real
  new_weight :: real
  history_quality :: real
  history_adjustment :: real

text \<open>
  \<^verbatim>\<open>_aspects\<close> and \<^verbatim>\<open>_personality_weights\<close> are dictionaries with every
  \<^typ>\<open>AspectType\<close> as a key, so they are total functions; of an Aspect the layer's
  feedback touches the running confidence only.
\<close>

record ConsciousLayer =
  aspect_confidence :: "AspectType \<Rightarrow> real"
  personality_weights :: "AspectType \<Rightarrow> real"
  deliberation_count :: nat
  decisions_made :: nat
  tiebreaker_index :: nat
  weight_history :: "WeightHistoryEntry list"

definition TIE_THRESHOLD :: real where
  "TIE_THRESHOLD = 0.15"

definition TIEBREAKER_ORDER :: "AspectType list" where
  "TIEBREAKER_ORDER = [GUARDIAN, EMPATH, ANALYST, PRAGMATIST, OPTIMIZER, EXPLORER]"

definition ConsciousLayer_init :: ConsciousLayer where
  "ConsciousLayer_init =
     \<lparr>aspect_confidence = (\<lambda>a. 0.5),
      personality_weights = (\<lambda>a. 1.0),
      deliberation_count = 0,
      decisions_made = 0,
      tiebreaker_index = 0,
      weight_history = []\<rparr>"

fun aspect_affinity :: "AspectType \<Rightarrow> AspectType list" where
  "aspect_affinity GUARDIAN = [PRAGMATIST, ANALYST, EMPATH]"
| "aspect_affinity EMPATH = [GUARDIAN, PRAGMATIST, ANALYST]"
| "aspect_affinity ANALYST = [PRAGMATIST, OPTIMIZER, GUARDIAN]"
| "aspect_affinity OPTIMIZER = [ANALYST, PRAGMATIST, EXPLORER]"
| "aspect_affinity EXPLORER = [OPTIMIZER, ANALYST, EMPATH]"
| "aspect_affinity PRAGMATIST = [ANALYST, GUARDIAN, OPTIMIZER]"

text \<open>
  The loop \<^verbatim>\<open>for ally in preferred: for p in tied_proposals: if p.aspect == ally: return p\<close>.
\<close>

fun choose_ally :: "AspectType list \<Rightarrow> ProposedAction list \<Rightarrow> ProposedAction option" where
  "choose_ally [] tied = None"
| "choose_ally (ally # allies) tied =
     (case find (\<lambda>p. aspect p = ally) tied of
        Some p \<Rightarrow> Some p
      | None \<Rightarrow> choose_ally allies tied)"

definition tiebreaker_choose :: "AspectType \<Rightarrow> ProposedAction list \<Rightarrow> py_error + ProposedAction" where
  "tiebreaker_choose tb tied_proposals =
     (case find (\<lambda>p. aspect p = tb) tied_proposals of
        Some p \<Rightarrow> Inr p
      | None \<Rightarrow>
          (case choose_ally (aspect_affinity tb) tied_proposals of
             Some p \<Rightarrow> Inr p
           | None \<Rightarrow>
               (case tied_proposals of
                  [] \<Rightarrow> Inl IndexError
                | p # ps \<Rightarrow> Inr p)))"

definition get_current_tiebreaker :: "ConsciousLayer \<Rightarrow> py_error + AspectType" where
  "get_current_tiebreaker cl =
     (if tiebreaker_index cl < length TIEBREAKER_ORDER
      then Inr (TIEBREAKER_ORDER ! tiebreaker_index cl)
      else Inl IndexError)"

text \<open>The proposals within the tie threshold of the top vote, in descending vote order.\<close>

definition tied_set :: "ProposedAction list \<Rightarrow> ProposedAction list" where
  "tied_set permitted =
     (let sorted_proposals = sort_key (\<lambda>a. - vote_strength a) permitted;
          top_vote = vote_strength (hd sorted_proposals)
      in filter (\<lambda>p. top_vote - vote_strength p \<le> TIE_THRESHOLD) sorted_proposals)"

text \<open>
  \<^verbatim>\<open>resolve_votes\<close>. Writing the tiebreaker into \<^verbatim>\<open>winner.vote_components\<close>
  raises \<^verbatim>\<open>TypeError\<close> when the winner carries no components; the index has
  advanced by then.
\<close>

definition resolve_votes :: "ConsciousLayer \<Rightarrow> ProposedAction list
    \<Rightarrow> (py_error + ProposedAction option) \<times> ConsciousLayer" where
  "resolve_votes cl permitted =
     (if permitted = [] then (Inr None, cl)
      else
        (let cl1 = cl\<lparr>decisions_made := decisions_made cl + 1\<rparr>;
             sorted_proposals = sort_key (\<lambda>a. - vote_strength a) permitted
         in if length sorted_proposals = 1 then (Inr (Some (hd sorted_proposals)), cl1)
            else
              (let tied = tied_set permitted
               in if length tied = 1 then (Inr (Some (hd tied)), cl1)
                  else
                    (case get_current_tiebreaker cl1 of
                       Inl e \<Rightarrow> (Inl e, cl1)
                     | Inr tiebreaker_aspect \<Rightarrow>
                         (let cl2 = cl1\<lparr>tiebreaker_index :=
                                          (tiebreaker_index cl1 + 1) mod length TIEBREAKER_ORDER\<rparr>
                          in case tiebreaker_choose tiebreaker_aspect tied of
                               Inl e \<Rightarrow> (Inl e, cl2)
                             | Inr winner \<Rightarrow>
                                 (case vote_components winner of
                                    None \<Rightarrow> (Inl TypeError, cl2)
                                  | Some vc \<Rightarrow>
                                      (Inr (Some (winner\<lparr>vote_components :=
                                          Some (vc\<lparr>tiebreaker := Some tiebreaker_aspect,
                                                   tied_with := Some (map aspect tied)\<rparr>)\<rparr>)),
                                       cl2)))))))"

text \<open>\<^verbatim>\<open>np.clip(x, lo, hi)\<close>.\<close>

definition clip :: "real \<Rightarrow> real \<Rightarrow> real \<Rightarrow> real" where
  "clip x lo hi = min (max x lo) hi"

definition update_confidence :: "real \<Rightarrow> real \<Rightarrow> real" where
  "update_confidence conf outc = clip (0.9 * conf + 0.1 * outc) 0.2 0.9"

text \<open>The \<^verbatim>\<open>adjustment\<close> that \<^verbatim>\<open>update_from_outcome\<close> computes from the quality.\<close>

definition adjustment :: "real \<Rightarrow> real" where
  "adjustment q =
     (if q > 0.7 then 1.05 + (q - 0.7) * 0.1
      else if q > 0.5 then 1.01 + (q - 0.5) * 0.02
      else if q < 0.3 then 0.92 - (0.3 - q) * 0.1
      else if q < 0.5 then 0.98 - (0.5 - q) * 0.03
      else 1.0)"

definition MIN_WEIGHT :: real where "MIN_WEIGHT = 0.1"
definition MAX_WEIGHT :: real where "MAX_WEIGHT = 5.0"

definition update_from_outcome :: "ConsciousLayer \<Rightarrow> ProposedAction \<Rightarrow> Outcome \<Rightarrow> ConsciousLayer" where
  "update_from_outcome cl action outc =
     (let q = get_or (quality outc) 0.5;
          a = aspect action;
          current_weight = personality_weights cl a;
          new_weight = current_weight * adjustment q;
          clamped = max MIN_WEIGHT (min MAX_WEIGHT new_weight)
      in cl\<lparr>aspect_confidence :=
              (aspect_confidence cl)(a := update_confidence (aspect_confidence cl a) q),
            personality_weights := (personality_weights cl)(a := clamped),
            weight_history := weight_history cl @
              [\<lparr>history_aspect = a, old_weight = current_weight, new_weight = clamped,
                history_quality = q, history_adjustment = adjustment q\<rparr>]\<rparr>)"

section \<open>The deliberation cycle\<close>







section \<open>Definitions that follow the specification\<close>

text \<open>
  The reduction the specification grants a claimed exception. A requirement is met
  when the verification map reports it true; a requirement the map does not mention,
  or reports false, is not met. The reduction is the maximum reduction times the share
  of met requirements when partial credit is allowed, else the maximum reduction only
  when all requirements are met, else nothing. An exception type without a definition
  in the ontology has no reduction.
\<close>

definition spec_met_requirements :: "string list \<Rightarrow> (string \<rightharpoonup> bool) \<Rightarrow> nat" where
  "spec_met_requirements requirements verification_status =
     length (filter (\<lambda>req. verification_status req = Some True) requirements)"

definition spec_reduction :: "ExceptionDefinition \<Rightarrow> (string \<rightharpoonup> bool) \<Rightarrow> real" where
  "spec_reduction exc_def verification_status =
     (let met = spec_met_requirements (verification_requirements exc_def) verification_status;
          total = length (verification_requirements exc_def)
      in if \<not> requires_all exc_def then max_harm_reduction exc_def * (real met / real total)
         else if met = total then max_harm_reduction exc_def
         else 0)"

definition spec_claimed_reduction :: "GroundedHarmOntology
    \<Rightarrow> ExceptionType \<times> (string \<rightharpoonup> bool) \<Rightarrow> real" where
  "spec_claimed_reduction ont claimed =
     (case map_of (exceptions ont) (fst claimed) of
        None \<Rightarrow> 0
      | Some exc_def \<Rightarrow> spec_reduction exc_def (snd claimed))"

text \<open>
  A mutation of one dimension's severity-to-weight table: the profile stored for the
  dimension gets another table, everything else stays.
\<close>

definition replace_severity_weights :: "GroundedHarmOntology \<Rightarrow> HarmDimension
    \<Rightarrow> DimensionSeverityWeight list \<Rightarrow> GroundedHarmOntology" where
  "replace_severity_weights ont d tbl =
     ont\<lparr>dimension_profiles :=
           map (\<lambda>kp. if fst kp = d then (fst kp, (snd kp)\<lparr>severity_weights := tbl\<rparr>) else kp)
             (dimension_profiles ont)\<rparr>"

text \<open>
  The Jaccard overlap of two finite sets, the size of the intersection over the size
  of the union. The formula as the specification words it uses one overlap for drives
  and for entity types; \<open>j_empty\<close> is the value that overlap has on two empty sets,
  where the quotient is undefined.
\<close>

definition jaccard :: "real \<Rightarrow> 'a set \<Rightarrow> 'a set \<Rightarrow> real" where
  "jaccard j_empty A B =
     (if A \<union> B = {} then j_empty else real (card (A \<inter> B)) / real (card (A \<union> B)))"

definition indicator :: "bool \<Rightarrow> real" where
  "indicator b = (if b then 1 else 0)"

definition spec_similarity :: "real \<Rightarrow> real \<Rightarrow> Impetus \<Rightarrow> IncidentRecord \<Rightarrow> real" where
  "spec_similarity j_drives j_types current past_record =
     0.25 * indicator (trigger_type current = trigger_type (impetus past_record))
     + 0.25 * jaccard j_drives (set (involved_drives current))
                (set (involved_drives (impetus past_record)))
     + 0.20 * (1 - min \<bar>severity current - severity (impetus past_record)\<bar> 1)
     + 0.20 * jaccard j_types (entity_type ` set (relevant_entities current))
                (entity_type ` set (relevant_entities (impetus past_record)))
     + 0.10 * indicator (map_option primary_emotion (emotional_value past_record)
                          = Some (predict_emotion_category current))"

text \<open>A series of outcome-feedback updates, and a series of vote resolutions.\<close>

definition apply_feedback :: "ConsciousLayer \<Rightarrow> (ProposedAction \<times> Outcome) list \<Rightarrow> ConsciousLayer" where
  "apply_feedback cl updates = foldl (\<lambda>c u. update_from_outcome c (fst u) (snd u)) cl updates"

fun resolve_rounds :: "ConsciousLayer \<Rightarrow> ProposedAction list list
    \<Rightarrow> (py_error + ProposedAction option) list \<times> ConsciousLayer" where
  "resolve_rounds cl [] = ([], cl)"
| "resolve_rounds cl (permitted # rounds) =
     (let (r, cl1) = resolve_votes cl permitted;
          (rs, cl2) = resolve_rounds cl1 rounds
      in (r # rs, cl2))"

text \<open>The tiebreaker on duty at the start of each round of a series.\<close>

fun round_tiebreakers :: "ConsciousLayer \<Rightarrow> ProposedAction list list \<Rightarrow> AspectType list" where
  "round_tiebreakers cl [] = []"
| "round_tiebreakers cl (permitted # rounds) =
     TIEBREAKER_ORDER ! tiebreaker_index cl
       # round_tiebreakers (snd (resolve_votes cl permitted)) rounds"

text \<open>A persistent tie: at least two proposals are within the threshold of the top vote.\<close>

definition is_tie :: "ProposedAction list \<Rightarrow> bool" where
  "is_tie permitted \<longleftrightarrow> 2 \<le> length (tied_set permitted)"

section \<open>Scenarios of the repository's test suite\<close>

text \<open>
  The states that \<^verbatim>\<open>run_tests\<close> builds for its lethal-action and child-harm tests:
  a fresh embodiment layer, one entity added, the hazards set. The capability
  validator plays no part in the registry checks; it accepts every command here.
\<close>

text \<open>
  The constructed ontology with one exception only, a necessity exception that allows
  partial credit (\<^verbatim>\<open>requires_all=False\<close>).
\<close>

definition partial_credit_ontology :: GroundedHarmOntology where
  "partial_credit_ontology =
     ontology_init\<lparr>exceptions :=
       [(NECESSITY, (snd (exception_def NECESSITY 0.6 NECESSITY_requirements))
                      \<lparr>requires_all := False\<rparr>)]\<rparr>"

definition no_state :: EntityState where
  "no_state = \<lparr>age = None, estimated_age = None, height = None, estimated_height = None,
               object_type = None\<rparr>"

definition no_updates :: Environment where
  "no_updates = \<lparr>env_description = None, human_override = None, stop_commanded = None,
                 emergency_stop = None, hazards = None, uncertainty = None,
                 identity_question_pending = None\<rparr>"

definition human_1 :: DetectedEntity where
  "human_1 = \<lparr>entity_id = ''human_1'', entity_type = HUMAN,
              description = ''Human near machinery'', position = Some [2, 0, 0],
              state = no_state, confidence = 0.9\<rparr>"

definition lethal_test_state :: EmbodimentState where
  "lethal_test_state =
     get_current_state
       (update_environment (add_entity (EmbodimentLayer_init (\<lambda>cmd. True) 100) human_1)
          (no_updates\<lparr>hazards := Some [''machinery'', ''heights'']\<rparr>))"

definition no_command :: Command where
  "no_command = \<lparr>cmd_type = None, cmd_target = None, cmd_speed = None, cmd_force = None,
                 cmd_action = None, cmd_level = None, cmd_message = None, cmd_content = None,
                 cmd_degrees = None, cmd_duration = None\<rparr>"

text \<open>\<^verbatim>\<open>{'type': 'MOVE', 'target': [x, y], 'speed': 1.5}\<close>\<close>

definition move_to :: "real \<Rightarrow> real \<Rightarrow> string \<Rightarrow> Command" where
  "move_to x y rendering =
     no_command\<lparr>cmd_type := Some ''MOVE'', cmd_target := Some (TargetCoords [x, y] rendering),
                cmd_speed := Some 1.5\<rparr>"

definition child_1 :: "EntityType \<Rightarrow> DetectedEntity" where
  "child_1 ty = \<lparr>entity_id = ''child_1'', entity_type = ty,
                 description = ''Small child alone'', position = Some [1, 0, 0],
                 state = no_state\<lparr>age := Some 5\<rparr>, confidence = 0.9\<rparr>"

definition child_test_state :: "EntityType \<Rightarrow> EmbodimentState" where
  "child_test_state ty =
     get_current_state
       (update_environment (add_entity (EmbodimentLayer_init (\<lambda>cmd. True) 100) (child_1 ty))
          (no_updates\<lparr>hazards := Some []\<rparr>))"

text \<open>
  \<^verbatim>\<open>{'type': 'MANIPULATE', 'action': 'restrain', 'target': 'child_1', 'force': f}\<close>
\<close>

definition restrain_child :: "real \<Rightarrow> Command" where
  "restrain_child f =
     no_command\<lparr>cmd_type := Some ''MANIPULATE'', cmd_action := Some ''restrain'',
                cmd_target := Some (TargetName ''child_1''), cmd_force := Some f\<rparr>"

text \<open>
  A child known by its type alone: typed CHILD, with a description that holds no child
  keyword and with no age or height reported; alone, under the same identifier.
\<close>

definition typed_child :: DetectedEntity where
  "typed_child = \<lparr>entity_id = ''child_1'', entity_type = CHILD,
                  description = ''Person'', position = Some [1, 0, 0],
                  state = no_state, confidence = 0.9\<rparr>"

definition typed_child_state :: EmbodimentState where
  "typed_child_state =
     get_current_state
       (update_environment (add_entity (EmbodimentLayer_init (\<lambda>cmd. True) 100) typed_child)
          (no_updates\<lparr>hazards := Some []\<rparr>))"



text \<open>A proposal of an aspect with a vote, as \<^verbatim>\<open>ConsciousLayer.deliberate\<close> returns it.\<close>

definition proposal :: "AspectType \<Rightarrow> real \<Rightarrow> Command list \<Rightarrow> ProposedAction" where
  "proposal a v cmds =
     \<lparr>aspect = a, action_description = ''action'', action_commands = cmds, rationale = [],
      vote_strength = v, proposal_confidence = 0.9,
      vote_components = Some \<lparr>base_vote = v, personality_weight = 1.0,
                               situational_relevance = 1.0, effective_vote = v,
                               tiebreaker = None, tied_with = None\<rparr>\<rparr>"

definition quality_of :: "real \<Rightarrow> Outcome" where
  "quality_of q = \<lparr>quality = Some q, outcome_success = None\<rparr>"

definition test_impetus :: "string \<Rightarrow> CoreDrive list \<Rightarrow> real \<Rightarrow> Impetus" where
  "test_impetus trig drives sev =
     \<lparr>timestamp = 0, trigger_type = trig, involved_drives = drives,
      situation_description = [], relevant_entities = [], severity = sev, certainty = 1,
      time_pressure = 0, embodiment_state = lethal_test_state\<rparr>"

definition test_incident :: "real \<Rightarrow> string \<Rightarrow> CoreDrive list \<Rightarrow> real \<Rightarrow> IncidentRecord" where
  "test_incident t trig drives sev =
     \<lparr>incident_timestamp = t, impetus = (test_impetus trig drives sev)\<lparr>timestamp := t\<rparr>,
      emotional_value = None, proposed_actions = [], selected_action = None, outcome = None\<rparr>"


text \<open>Two proposals with equal votes: a tie between the analyst and the explorer.\<close>

definition tied_pair :: "ProposedAction list" where
  "tied_pair = [proposal ANALYST 0.5 [], proposal EXPLORER 0.5 []]"

text \<open>
  A history of two incidents for the trigger \<open>conflict\<close> with the harm drive at severity
  0.5: one of the same trigger type and drive at severity 0.6, and a more recent one of
  another trigger type and another drive. As in the repository's similarity test, the
  more recent one comes first in the history.
\<close>

definition similar_incident :: IncidentRecord where
  "similar_incident = test_incident 1 ''conflict'' [REDUCE_HARM] 0.6"

definition dissimilar_incident :: IncidentRecord where
  "dissimilar_incident = test_incident 2 ''opportunity'' [IMPROVE] 0.5"

definition two_incidents :: SubconsciousLayer where
  "two_incidents =
     (SubconsciousLayer_init 1000)\<lparr>incident_history := [dissimilar_incident, similar_incident]\<rparr>"

section \<open>Properties of the harm ontology\<close>

lemma foldl_context_product:
  "foldl (\<lambda>p (ctx_type, l). p * get_context_modifier ont ctx_type l) a xs =
     a * prod_list (map (\<lambda>(axis, l). get_context_modifier ont axis l) xs)"
  by (induction xs arbitrary: a) (auto simp: algebra_simps)

lemma foldl_reduction_sum:
  "foldl (\<lambda>t (exc_type, verification). t + f exc_type verification) a xs =
     a + sum_list (map (\<lambda>c. f (fst c) (snd c)) xs)"
  by (induction xs arbitrary: a) (auto simp: algebra_simps)

text \<open>
  The code's count of met requirements, \<^verbatim>\<open>verification_status.get(req, False)\<close>
  over the requirements, is the number of requirements that the map reports true.
\<close>

lemma met_count_spec:
  "met_count d vs = spec_met_requirements (verification_requirements d) vs"
proof -
  have "requirement_met vs = (\<lambda>req. vs req = Some True)"
    by (auto simp: requirement_met_def fun_eq_iff split: option.splits)
  then show ?thesis
    by (simp add: met_count_def spec_met_requirements_def)
qed

lemma spec_met_le: "spec_met_requirements reqs vs \<le> length reqs"
  by (simp add: spec_met_requirements_def)

text \<open>
  The code and the specification agree on every exception that has a requirement.
\<close>

lemma reduction_matches_spec:
  assumes "map_of (exceptions ont) e = Some d"
    and "verification_requirements d \<noteq> []"
  shows "get_exception_reduction ont e vs = spec_reduction d vs"
  using assms spec_met_le [of "verification_requirements d" vs]
  by (auto simp: get_exception_reduction_def spec_reduction_def Let_def met_count_spec)

lemma claimed_reduction_matches_spec:
  assumes "list_all (\<lambda>entry. verification_requirements (snd entry) \<noteq> []) (exceptions ont)"
  shows "get_exception_reduction ont e vs = spec_claimed_reduction ont (e, vs)"
proof (cases "map_of (exceptions ont) e")
  case None
  then show ?thesis by (simp add: get_exception_reduction_def spec_claimed_reduction_def)
next
  case (Some d)
  then have "(e, d) \<in> set (exceptions ont)"
    by (rule map_of_SomeD)
  then have "verification_requirements d \<noteq> []"
    using assms by (auto simp: list_all_iff)
  then show ?thesis
    using reduction_matches_spec [OF Some] Some by (simp add: spec_claimed_reduction_def)
qed

lemmas ontology_lookup_defs =
  get_dimension_weight_def get_entity_modifier_def get_context_modifier_def
  ontology_init_def ontology_tables_def build_dimension_profiles_def profile_def sw_def
  build_entity_modifiers_def entity_mod_def build_context_modifiers_def context_mod_def
  build_exceptions_def exception_def_def NECESSITY_requirements_def

text \<open>
  C1. In an ontology whose exceptions each have a requirement, as all four of the
  constructed ontology do, for every dimension, severity, entity type, context map and
  exception map: the gross harm is the base weight times the entity modifier times the
  product of the context modifiers of the supplied pairs; each claimed exception
  reduces it by the maximum reduction times the share of the requirements that the
  verification map reports true if partial credit is allowed, else by the maximum
  reduction only if the map reports every requirement true, else by nothing; the net
  harm is the gross harm minus the sum of the reductions, floored at zero; the veto
  flag is net harm above 0.40 and the caution flag is net harm above 0.25.
\<close>

theorem calculate_harm_formula:
  assumes "list_all (\<lambda>entry. verification_requirements (snd entry) \<noteq> []) (exceptions ont)"
  shows "gross_harm (calculate_harm ont d sev ety ctx excs) =
       get_dimension_weight ont d sev * get_entity_modifier ont ety
       * prod_list (map (\<lambda>(axis, l). get_context_modifier ont axis l) (or_empty ctx))
   \<and> net_harm (calculate_harm ont d sev ety ctx excs) =
       max 0 (gross_harm (calculate_harm ont d sev ety ctx excs)
              - sum_list (map (spec_claimed_reduction ont) (or_empty excs)))
   \<and> exceeds_veto (calculate_harm ont d sev ety ctx excs) =
       (net_harm (calculate_harm ont d sev ety ctx excs) > 0.40)
   \<and> exceeds_caution (calculate_harm ont d sev ety ctx excs) =
       (net_harm (calculate_harm ont d sev ety ctx excs) > 0.25)"
  by (simp add: calculate_harm_def Let_def foldl_context_product foldl_reduction_sum
      claimed_reduction_matches_spec [OF assms] VETO_THRESHOLD_def CAUTION_THRESHOLD_def)

text \<open>
  The formula at the scenario of the repository's own test, significant physical harm
  to a highly vulnerable child: with a fully met necessity exception the net harm is
  0.845 - 0.6; with only two of the three requirements reported true, or with none
  reported at all, nothing is taken off; were partial credit allowed, two of three
  would take off two thirds of 0.6.
\<close>

theorem calculate_harm_formula_witness:
  "gross_harm (calculate_harm ontology_init PHYSICAL SIGNIFICANT CHILD
       (Some [(''vulnerability'', ''highly_vulnerable'')])
       (Some [(NECESSITY, map_of (map (\<lambda>r. (r, True)) NECESSITY_requirements))])) = 0.845
   \<and> net_harm (calculate_harm ontology_init PHYSICAL SIGNIFICANT CHILD
       (Some [(''vulnerability'', ''highly_vulnerable'')])
       (Some [(NECESSITY, map_of (map (\<lambda>r. (r, True)) NECESSITY_requirements))])) = 0.245
   \<and> net_harm (calculate_harm ontology_init PHYSICAL SIGNIFICANT CHILD
       (Some [(''vulnerability'', ''highly_vulnerable'')])
       (Some [(NECESSITY, map_of (map (\<lambda>r. (r, True)) (take 2 NECESSITY_requirements)))])) = 0.845
   \<and> net_harm (calculate_harm ontology_init PHYSICAL SIGNIFICANT CHILD
       (Some [(''vulnerability'', ''highly_vulnerable'')])
       (Some [(NECESSITY, Map.empty)])) = 0.845
   \<and> exceeds_veto (calculate_harm ontology_init PHYSICAL SIGNIFICANT CHILD
       (Some [(''vulnerability'', ''highly_vulnerable'')])
       (Some [(NECESSITY, Map.empty)]))
   \<and> net_harm (calculate_harm partial_credit_ontology PHYSICAL SIGNIFICANT CHILD
       (Some [(''vulnerability'', ''highly_vulnerable'')])
       (Some [(NECESSITY, map_of (map (\<lambda>r. (r, True)) (take 2 NECESSITY_requirements)))])) = 0.445
   \<and> list_all (\<lambda>entry. verification_requirements (snd entry) \<noteq> []) (exceptions ontology_init)"
proof -
  have wf: "list_all (\<lambda>entry. verification_requirements (snd entry) \<noteq> [])
              (exceptions ontology_init)"
    by (simp add: ontology_init_def ontology_tables_def build_exceptions_def exception_def_def
        NECESSITY_requirements_def)
  have wfp: "list_all (\<lambda>entry. verification_requirements (snd entry) \<noteq> [])
              (exceptions partial_credit_ontology)"
    by (simp add: partial_credit_ontology_def exception_def_def NECESSITY_requirements_def)
  have full: "net_harm (calculate_harm ontology_init PHYSICAL SIGNIFICANT CHILD
       (Some [(''vulnerability'', ''highly_vulnerable'')])
       (Some [(NECESSITY, map_of (map (\<lambda>r. (r, True)) NECESSITY_requirements))])) = 0.245
     \<and> gross_harm (calculate_harm ontology_init PHYSICAL SIGNIFICANT CHILD
       (Some [(''vulnerability'', ''highly_vulnerable'')])
       (Some [(NECESSITY, map_of (map (\<lambda>r. (r, True)) NECESSITY_requirements))])) = 0.845"
    using calculate_harm_formula [OF wf, of PHYSICAL SIGNIFICANT CHILD
        "Some [(''vulnerability'', ''highly_vulnerable'')]"
        "Some [(NECESSITY, map_of (map (\<lambda>r. (r, True)) NECESSITY_requirements))]"]
    by (simp add: ontology_lookup_defs or_empty_def spec_claimed_reduction_def
        spec_reduction_def spec_met_requirements_def)
  have two: "net_harm (calculate_harm ontology_init PHYSICAL SIGNIFICANT CHILD
       (Some [(''vulnerability'', ''highly_vulnerable'')])
       (Some [(NECESSITY, map_of (map (\<lambda>r. (r, True)) (take 2 NECESSITY_requirements)))])) = 0.845"
    using calculate_harm_formula [OF wf, of PHYSICAL SIGNIFICANT CHILD
        "Some [(''vulnerability'', ''highly_vulnerable'')]"
        "Some [(NECESSITY, map_of (map (\<lambda>r. (r, True)) (take 2 NECESSITY_requirements)))]"]
    by (simp add: ontology_lookup_defs or_empty_def spec_claimed_reduction_def
        spec_reduction_def spec_met_requirements_def)
  have none: "net_harm (calculate_harm ontology_init PHYSICAL SIGNIFICANT CHILD
       (Some [(''vulnerability'', ''highly_vulnerable'')])
       (Some [(NECESSITY, Map.empty)])) = 0.845
     \<and> exceeds_veto (calculate_harm ontology_init PHYSICAL SIGNIFICANT CHILD
       (Some [(''vulnerability'', ''highly_vulnerable'')])
       (Some [(NECESSITY, Map.empty)]))"
    using calculate_harm_formula [OF wf, of PHYSICAL SIGNIFICANT CHILD
        "Some [(''vulnerability'', ''highly_vulnerable'')]"
        "Some [(NECESSITY, Map.empty)]"]
    by (simp add: ontology_lookup_defs or_empty_def spec_claimed_reduction_def
        spec_reduction_def spec_met_requirements_def)
  have partial: "net_harm (calculate_harm partial_credit_ontology PHYSICAL SIGNIFICANT CHILD
       (Some [(''vulnerability'', ''highly_vulnerable'')])
       (Some [(NECESSITY, map_of (map (\<lambda>r. (r, True)) (take 2 NECESSITY_requirements)))])) = 0.445"
    using calculate_harm_formula [OF wfp, of PHYSICAL SIGNIFICANT CHILD
        "Some [(''vulnerability'', ''highly_vulnerable'')]"
        "Some [(NECESSITY, map_of (map (\<lambda>r. (r, True)) (take 2 NECESSITY_requirements)))]"]
    by (simp add: partial_credit_ontology_def ontology_lookup_defs or_empty_def
        spec_claimed_reduction_def spec_reduction_def spec_met_requirements_def)
  show ?thesis
    using full two none partial wf by simp
qed

text \<open>
  C9. Whenever the gross harm is strictly positive, the call with a NECESSITY exception
  whose three requirements are all met has a strictly smaller net harm than the same
  call without exceptions (no exception argument, or an empty one).
\<close>

theorem necessity_strictly_reduces:
  assumes "0 < gross_harm (calculate_harm ontology_init d sev ety ctx None)"
    and "list_all (\<lambda>req. verification req = Some True) NECESSITY_requirements"
  shows "net_harm (calculate_harm ontology_init d sev ety ctx (Some [(NECESSITY, verification)]))
           < net_harm (calculate_harm ontology_init d sev ety ctx None)
       \<and> net_harm (calculate_harm ontology_init d sev ety ctx (Some []))
           = net_harm (calculate_harm ontology_init d sev ety ctx None)"
proof -
  have red: "get_exception_reduction ontology_init NECESSITY verification = 0.6"
    using assms(2)
    by (simp add: get_exception_reduction_def ontology_lookup_defs met_count_def
        requirement_met_def)
  show ?thesis
    using assms(1) red by (simp add: calculate_harm_def Let_def or_empty_def)
qed

theorem necessity_strictly_reduces_witness:
  "net_harm (calculate_harm ontology_init PHYSICAL SIGNIFICANT CHILD
       (Some [(''vulnerability'', ''highly_vulnerable'')])
       (Some [(NECESSITY, map_of (map (\<lambda>r. (r, True)) NECESSITY_requirements))]))
     < net_harm (calculate_harm ontology_init PHYSICAL SIGNIFICANT CHILD
         (Some [(''vulnerability'', ''highly_vulnerable'')]) None)
   \<and> 0 < gross_harm (calculate_harm ontology_init PHYSICAL SIGNIFICANT CHILD
         (Some [(''vulnerability'', ''highly_vulnerable'')]) None)"
proof -
  have g: "0 < gross_harm (calculate_harm ontology_init PHYSICAL SIGNIFICANT CHILD
         (Some [(''vulnerability'', ''highly_vulnerable'')]) None)"
    by (simp add: calculate_harm_def Let_def or_empty_def ontology_lookup_defs)
  have m: "list_all (\<lambda>req. map_of (map (\<lambda>r. (r, True)) NECESSITY_requirements) req = Some True)
             NECESSITY_requirements"
    by (simp add: NECESSITY_requirements_def)
  show ?thesis
    using necessity_strictly_reduces [OF g m] g by simp
qed

text \<open>
  The checksum reads the keys of the tables and the veto threshold, so replacing the
  severity-to-weight table of a dimension leaves it as it was.
\<close>

lemma verify_integrity_init: "verify_integrity ontology_init"
  by (simp add: verify_integrity_def ontology_init_def ontology_compute_checksum_def
      checksum_data_def)

lemma checksum_data_replace:
  "checksum_data (replace_severity_weights ont d tbl) = checksum_data ont"
proof -
  have "(HarmDimension_name \<circ> fst) \<circ>
          (\<lambda>kp :: HarmDimension \<times> HarmDimensionProfile.
             if fst kp = d then (fst kp, (snd kp)\<lparr>severity_weights := tbl\<rparr>) else kp)
        = HarmDimension_name \<circ> fst"
    by (auto simp: fun_eq_iff)
  then show ?thesis
    by (simp add: checksum_data_def replace_severity_weights_def)
qed

lemma verify_integrity_replace:
  "verify_integrity (replace_severity_weights ont d tbl) = verify_integrity ont"
  by (simp add: verify_integrity_def ontology_compute_checksum_def checksum_data_replace)
    (simp add: replace_severity_weights_def)

text \<open>
  C2. The checksum recomputed right after construction equals the stored one. It is
  computed from the identifiers of the tables and the veto threshold only, so it stays
  equal when the severity-to-weight table of any dimension is replaced by any other
  table: with every weight of the physical dimension set to zero the integrity check
  still passes, while the weight that scoring reads has changed from 1 to 0.
\<close>

theorem checksum_misses_weight_mutation:
  "verify_integrity ontology_init
   \<and> verify_integrity (replace_severity_weights ontology_init d tbl)
   \<and> verify_integrity (replace_severity_weights ontology_init PHYSICAL
        [sw FATAL 0, sw GRIEVOUS 0, sw SEVERE 0, sw SIGNIFICANT 0, sw MODERATE 0, sw MINOR 0])
   \<and> get_dimension_weight ontology_init PHYSICAL FATAL = 1
   \<and> get_dimension_weight (replace_severity_weights ontology_init PHYSICAL
        [sw FATAL 0, sw GRIEVOUS 0, sw SEVERE 0, sw SIGNIFICANT 0, sw MODERATE 0, sw MINOR 0])
        PHYSICAL FATAL = 0"
  by (simp add: verify_integrity_replace verify_integrity_init)
    (simp add: replace_severity_weights_def ontology_lookup_defs)

section \<open>Properties of the undeliberable registry\<close>

lemma undeliberables_distinct:
  "LETHAL_ACTION \<noteq> CHILD_HARM" "LETHAL_ACTION \<noteq> HUMAN_OVERRIDE"
  "LETHAL_ACTION \<noteq> WEAPON_ASSISTANCE" "LETHAL_ACTION \<noteq> IDENTITY_DECEPTION"
  by (simp_all add: LETHAL_ACTION_def CHILD_HARM_def HUMAN_OVERRIDE_def
      WEAPON_ASSISTANCE_def IDENTITY_DECEPTION_def)

lemma foldl_keeps_bound:
  assumes "\<And>p x. b \<le> p \<Longrightarrow> b \<le> f p x" and "b \<le> a"
  shows "(b::real) \<le> foldl f a xs"
  using assms(2) by (induction xs arbitrary: a) (auto intro: assms(1))

lemma foldl_reaches_bound:
  assumes "\<And>p x. b \<le> p \<Longrightarrow> b \<le> f p x" and "x \<in> set xs" and "\<And>p. b \<le> f p x"
  shows "(b::real) \<le> foldl f a xs"
  using assms(2)
proof (induction xs arbitrary: a)
  case Nil
  then show ?case by simp
next
  case (Cons y ys)
  show ?case
  proof (cases "x = y")
    case True
    then show ?thesis
      using foldl_keeps_bound [of b f "f a y" ys] assms(1) assms(3) by simp
  next
    case False
    then show ?thesis using Cons by simp
  qed
qed

lemma move_step_mono: "b \<le> p \<Longrightarrow> b \<le> move_step speed tgt p h"
  by (auto simp: move_step_def Let_def split: option.splits target.splits)

lemma move_step_close:
  assumes "dist_to_human xs (human_pos_of h) < 1" and "0.5 < speed"
  shows "0.5 + speed * 0.2 \<le> move_step speed (Some (TargetCoords xs rendering)) p h"
proof -
  have "human_pos_of h \<noteq> []"
    by (simp add: human_pos_of_def split: option.splits)
  then show ?thesis
    using assms by (simp add: move_step_def Let_def)
qed

lemma confidence_step_mono: "b \<le> p \<Longrightarrow> b \<le> 1 \<Longrightarrow> b \<le> confidence_step p h"
  by (auto simp: confidence_step_def; argo)

lemma lethal_estimate_lower_bound:
  assumes h: "h \<in> set (detected_entities st)" "entity_type h = HUMAN"
    and c: "cmd \<in> set cmds"
    and b: "b \<le> command_probability (hazard_flags st)
                   (filter (\<lambda>e. entity_type e = HUMAN) (detected_entities st)) cmd"
      "b \<le> 1"
  shows "b \<le> check_lethal_action cmds st"
proof -
  let ?humans = "filter (\<lambda>e. entity_type e = HUMAN) (detected_entities st)"
  let ?p0 = "foldl (\<lambda>max_probability cmd.
                max max_probability (command_probability (hazard_flags st) ?humans cmd)) 0.0 cmds"
  let ?unc = "get_or (uncertainty (environment st)) 0"
  let ?p1 = "if ?unc > 0.3 then min 1.0 (?p0 + ?unc * 0.2) else ?p0"
  have ne: "?humans \<noteq> []"
    using h by (auto simp: filter_empty_conv)
  have p0: "b \<le> ?p0"
    by (rule foldl_reaches_bound [OF _ c]) (use b in auto)
  have p1: "b \<le> ?p1"
    using p0 b(2) by auto
  have "b \<le> foldl confidence_step ?p1 ?humans"
    by (rule foldl_keeps_bound [OF _ p1]) (use b(2) in \<open>auto intro: confidence_step_mono\<close>)
  moreover have "check_lethal_action cmds st = foldl confidence_step ?p1 ?humans"
    unfolding check_lethal_action_def Let_def using ne by simp
  ultimately show ?thesis by simp
qed

text \<open>
  C3, as amended. In a state with no override flag and a detected entity typed HUMAN,
  a command list that contains a MOVE at speed 1.5 whose coordinate target is at a
  horizontal distance strictly below 1 metre from that human's position is answered
  with the lethal-action violation: the estimate is at least 0.8, above the 0.65
  threshold, whatever the hazards, the uncertainty and the other commands.
\<close>

theorem move_close_to_human_is_lethal:
  assumes "\<not> check_human_override st"
    and "h \<in> set (detected_entities st)" and "entity_type h = HUMAN"
    and "cmd \<in> set cmds" and "cmd_type cmd = Some ''MOVE''" and "cmd_speed cmd = Some 1.5"
    and "cmd_target cmd = Some (TargetCoords xs rendering)"
    and "dist_to_human xs (human_pos_of h) < 1"
  shows "0.8 \<le> check_lethal_action cmds st
       \<and> check_all cmds st =
           Some \<lparr>undeliberable = LETHAL_ACTION, commands = cmds,
                 state_snapshot = LethalProbability (check_lethal_action cmds st)\<rparr>"
proof -
  let ?humans = "filter (\<lambda>e. entity_type e = HUMAN) (detected_entities st)"
  have hin: "h \<in> set ?humans"
    using assms(2,3) by simp
  have fold: "0.8 \<le> foldl (move_step 1.5 (Some (TargetCoords xs rendering))) 0.0 ?humans"
  proof (rule foldl_reaches_bound [OF _ hin])
    show "0.8 \<le> move_step 1.5 (Some (TargetCoords xs rendering)) p h" for p
      using move_step_close [OF assms(8), of "1.5" rendering p] by simp
  qed (rule move_step_mono)
  have "0.8 \<le> command_probability (hazard_flags st) ?humans cmd"
    using fold assms(5,6,7) by (simp add: command_probability_def type_of_def get_or_def Let_def)
  then have est: "0.8 \<le> check_lethal_action cmds st"
    using lethal_estimate_lower_bound [OF assms(2,3,4), of "0.8"] by simp
  then show ?thesis
    using assms(1) by (simp add: check_all_def Let_def LETHAL_PROBABILITY_THRESHOLD_def)
qed

lemma lethal_test_state_simps:
  "detected_entities lethal_test_state = [human_1]"
  "\<not> check_human_override lethal_test_state"
  "hazards (environment lethal_test_state) = Some [''machinery'', ''heights'']"
  "uncertainty (environment lethal_test_state) = Some 0.5"
  by (simp_all add: lethal_test_state_def get_current_state_def update_environment_def
      add_entity_def EmbodimentLayer_init_def no_updates_def check_human_override_def
      get_or_def first_of_def Let_def)

text \<open>The test of the repository: the target is the human's own position.\<close>

theorem move_close_to_human_is_lethal_witness:
  "0.8 \<le> check_lethal_action [move_to 2 0 ''[2.0, 0.0]''] lethal_test_state
   \<and> check_all [move_to 2 0 ''[2.0, 0.0]''] lethal_test_state =
       Some \<lparr>undeliberable = LETHAL_ACTION, commands = [move_to 2 0 ''[2.0, 0.0]''],
             state_snapshot = LethalProbability
               (check_lethal_action [move_to 2 0 ''[2.0, 0.0]''] lethal_test_state)\<rparr>"
proof -
  have d: "dist_to_human [2, 0] (human_pos_of human_1) < 1"
    by (simp add: dist_to_human_def human_pos_of_def human_1_def)
  show ?thesis
    by (rule move_close_to_human_is_lethal [where h = human_1 and xs = "[2, 0]"
          and rendering = "''[2.0, 0.0]''" and cmd = "move_to 2 0 ''[2.0, 0.0]''"])
      (simp_all add: lethal_test_state_simps d, simp_all add: human_1_def move_to_def no_command_def)
qed

text \<open>
  C3 fails as stated: with the target exactly 1 metre from the human the proximity
  term does not fire (the test is a strict inequality), the estimate is 0.6 and no
  check blocks the command.
\<close>

theorem move_one_metre_from_human_counterexample:
  "dist_to_human [3, 0] (human_pos_of human_1) = 1
   \<and> check_lethal_action [move_to 3 0 ''[3.0, 0.0]''] lethal_test_state = 0.6
   \<and> check_all [move_to 3 0 ''[3.0, 0.0]''] lethal_test_state = None"
proof -
  have d: "dist_to_human [3, 0] (human_pos_of human_1) = 1"
    by (simp add: dist_to_human_def human_pos_of_def human_1_def)
  have hz: "near_heights (hazard_flags lethal_test_state)"
    "\<not> near_traffic (hazard_flags lethal_test_state)"
    by (simp_all add: hazard_flags_def lethal_test_state_simps get_or_def Let_def
        str_of_list_def str_lower_def lower_char_def)
  have ty: "type_of (move_to 3 0 ''[3.0, 0.0]'') = ''MOVE''"
    "cmd_speed (move_to 3 0 ''[3.0, 0.0]'') = Some 1.5"
    "cmd_target (move_to 3 0 ''[3.0, 0.0]'') = Some (TargetCoords [3, 0] ''[3.0, 0.0]'')"
    by (simp_all add: move_to_def no_command_def type_of_def get_or_def)
  have ms: "move_step 1.5 (Some (TargetCoords [3, 0] ''[3.0, 0.0]'')) 0 human_1 = 0.45"
    using d by (simp add: move_step_def Let_def)
  have cp: "command_probability (hazard_flags lethal_test_state) [human_1]
              (move_to 3 0 ''[3.0, 0.0]'') = 0.5"
    using hz ms by (simp add: command_probability_def ty get_or_def Let_def)
  have l: "check_lethal_action [move_to 3 0 ''[3.0, 0.0]''] lethal_test_state = 0.6"
    using cp
    by (simp add: check_lethal_action_def lethal_test_state_simps Let_def get_or_def
        confidence_step_def)
      (simp add: human_1_def)
  have nc: "\<not> is_child human_1"
    by (simp add: is_child_def human_1_def no_state_def first_of_def any_in_def
        child_keywords_def str_lower_def lower_char_def)
  have ch: "\<not> check_child_harm [move_to 3 0 ''[3.0, 0.0]''] lethal_test_state"
    using nc by (simp add: check_child_harm_def lethal_test_state_simps Let_def)
  have w: "\<not> check_weapon_assistance [move_to 3 0 ''[3.0, 0.0]''] lethal_test_state"
    by (simp add: check_weapon_assistance_def weapon_rule_def ty)
  have i: "\<not> check_identity_deception [move_to 3 0 ''[3.0, 0.0]''] lethal_test_state"
    by (simp add: check_identity_deception_def deception_rule_def ty)
  show ?thesis
    using d l ch w i
    by (simp add: check_all_def lethal_test_state_simps Let_def LETHAL_PROBABILITY_THRESHOLD_def)
qed

text \<open>
  C10. In a state with no detected entity typed HUMAN the lethal-probability estimate
  is exactly 0 for every command list, so the violation that the five checks return,
  if any, is never the lethal-action one; an entity typed CHILD does not count as a
  human here.
\<close>

theorem no_human_no_lethal_action:
  assumes "list_all (\<lambda>e. entity_type e \<noteq> HUMAN) (detected_entities st)"
  shows "check_lethal_action cmds st = 0
       \<and> (case check_all cmds st of
            None \<Rightarrow> True
          | Some violation \<Rightarrow> undeliberable violation \<noteq> LETHAL_ACTION)"
proof -
  have "filter (\<lambda>e. entity_type e = HUMAN) (detected_entities st) = []"
    using assms by (simp add: filter_empty_conv list_all_iff)
  then have z: "check_lethal_action cmds st = 0"
    by (simp add: check_lethal_action_def)
  show ?thesis
    using z undeliberables_distinct
    by (auto simp: check_all_def Let_def LETHAL_PROBABILITY_THRESHOLD_def)
qed

lemma child_test_state_simps:
  "detected_entities (child_test_state ty) = [child_1 ty]"
  "\<not> check_human_override (child_test_state ty)"
  "hazards (environment (child_test_state ty)) = Some []"
  "uncertainty (environment (child_test_state ty)) = Some 0.5"
  by (simp_all add: child_test_state_def get_current_state_def update_environment_def
      add_entity_def EmbodimentLayer_init_def no_updates_def check_human_override_def
      get_or_def first_of_def Let_def)

theorem no_human_no_lethal_action_witness:
  "check_lethal_action [restrain_child 100] (child_test_state CHILD) = 0
   \<and> check_all [restrain_child 100] (child_test_state CHILD) =
       Some \<lparr>undeliberable = CHILD_HARM, commands = [restrain_child 100],
             state_snapshot = ChildTargeting\<rparr>"
proof -
  have a: "list_all (\<lambda>e. entity_type e \<noteq> HUMAN) (detected_entities (child_test_state CHILD))"
    by (simp add: child_test_state_simps child_1_def)
  have c: "is_child (child_1 CHILD)"
    by (simp add: is_child_def child_1_def no_state_def first_of_def)
  have r: "child_rule False (restrain_child 100) (child_1 CHILD)"
    by (simp add: child_rule_def restrain_child_def no_command_def target_str_def type_of_def
        get_or_def child_1_def str_lower_def lower_char_def Let_def)
  have h: "check_child_harm [restrain_child 100] (child_test_state CHILD)"
    using c r by (simp add: check_child_harm_def child_test_state_simps Let_def)
  show ?thesis
    using no_human_no_lethal_action [OF a, of "[restrain_child 100]"] h
    by (simp add: check_all_def child_test_state_simps Let_def LETHAL_PROBABILITY_THRESHOLD_def)
qed

text \<open>
  C4, as amended. In a state with no override flag, with a child that the registry's
  child test recognises (by descriptive keyword, reported age or small stature) and
  with no entity typed HUMAN that is not so recognised, every command list that contains
  a MANIPULATE command whose target names the child is answered with a violation,
  whatever the force: the lethal-action violation when the lethal estimate is above
  0.65, the child-harm violation otherwise, and so always the child-harm one when no
  entity is typed HUMAN. A child known by its type field alone is left out here.
\<close>

theorem manipulating_lone_child_is_blocked:
  assumes "\<not> check_human_override st"
    and "child \<in> set (detected_entities st)" and "is_child child"
    and "list_all (\<lambda>e. entity_type e = HUMAN \<longrightarrow> is_child e) (detected_entities st)"
    and "cmd \<in> set cmds" and "cmd_type cmd = Some ''MANIPULATE''"
    and "str_in (str_lower (entity_id child)) (target_str cmd)"
  shows "check_all cmds st =
           Some (if check_lethal_action cmds st > 0.65
                 then \<lparr>undeliberable = LETHAL_ACTION, commands = cmds,
                       state_snapshot = LethalProbability (check_lethal_action cmds st)\<rparr>
                 else \<lparr>undeliberable = CHILD_HARM, commands = cmds,
                       state_snapshot = ChildTargeting\<rparr>)
       \<and> (list_all (\<lambda>e. entity_type e \<noteq> HUMAN) (detected_entities st) \<longrightarrow>
            check_all cmds st =
              Some \<lparr>undeliberable = CHILD_HARM, commands = cmds, state_snapshot = ChildTargeting\<rparr>)"
proof -
  let ?children = "filter is_child (detected_entities st)"
  have cin: "child \<in> set ?children"
    using assms(2,3) by simp
  then have ne: "?children \<noteq> []"
    by (metis empty_iff empty_set)
  have nocare: "filter (\<lambda>e. entity_type e = HUMAN \<and> \<not> is_child e) (detected_entities st) = []"
    using assms(4) by (auto simp: filter_empty_conv list_all_iff)
  have rule: "child_rule False cmd child"
    using assms(6,7) by (simp add: child_rule_def type_of_def get_or_def Let_def)
  have "list_ex (\<lambda>c. list_ex (child_rule False c) ?children) cmds"
    using rule cin assms(5) unfolding list_ex_iff by blast
  then have harm: "check_child_harm cmds st"
    using ne nocare by (simp add: check_child_harm_def Let_def)
  have first: "check_all cmds st =
           Some (if check_lethal_action cmds st > 0.65
                 then \<lparr>undeliberable = LETHAL_ACTION, commands = cmds,
                       state_snapshot = LethalProbability (check_lethal_action cmds st)\<rparr>
                 else \<lparr>undeliberable = CHILD_HARM, commands = cmds,
                       state_snapshot = ChildTargeting\<rparr>)"
    using assms(1) harm by (simp add: check_all_def Let_def LETHAL_PROBABILITY_THRESHOLD_def)
  have "check_lethal_action cmds st = 0"
    if "list_all (\<lambda>e. entity_type e \<noteq> HUMAN) (detected_entities st)"
  proof -
    have "filter (\<lambda>e. entity_type e = HUMAN) (detected_entities st) = []"
      using that by (simp add: filter_empty_conv list_all_iff)
    then show ?thesis by (simp add: check_lethal_action_def)
  qed
  then show ?thesis
    using first by auto
qed

text \<open>A child typed CHILD and described as one, alone, restrained with force 100.\<close>

theorem manipulating_lone_child_is_blocked_witness:
  "check_all [restrain_child 100] (child_test_state CHILD) =
     Some (if check_lethal_action [restrain_child 100] (child_test_state CHILD) > 0.65
           then \<lparr>undeliberable = LETHAL_ACTION, commands = [restrain_child 100],
                 state_snapshot = LethalProbability
                   (check_lethal_action [restrain_child 100] (child_test_state CHILD))\<rparr>
           else \<lparr>undeliberable = CHILD_HARM, commands = [restrain_child 100],
                 state_snapshot = ChildTargeting\<rparr>)
   \<and> is_child (child_1 CHILD)
   \<and> str_in (str_lower (entity_id (child_1 CHILD))) (target_str (restrain_child 100))"
proof -
  have c: "is_child (child_1 CHILD)"
    by (simp add: is_child_def child_1_def no_state_def first_of_def)
  have t: "str_in (str_lower (entity_id (child_1 CHILD))) (target_str (restrain_child 100))"
    by (simp add: restrain_child_def no_command_def target_str_def child_1_def str_lower_def
        lower_char_def)
  have m: "cmd_type (restrain_child 100) = Some ''MANIPULATE''"
    by (simp add: restrain_child_def no_command_def)
  have l: "list_all (\<lambda>e. entity_type e = HUMAN \<longrightarrow> is_child e)
             (detected_entities (child_test_state CHILD))"
    using c by (simp add: child_test_state_simps)
  have i: "child_1 CHILD \<in> set (detected_entities (child_test_state CHILD))"
    "restrain_child 100 \<in> set [restrain_child 100]"
    by (simp_all add: child_test_state_simps)
  show ?thesis
    using manipulating_lone_child_is_blocked
      [OF child_test_state_simps(2) i(1) c l i(2) m t] c t
    by simp
qed

lemma typed_child_state_simps:
  "detected_entities typed_child_state = [typed_child]"
  "\<not> check_human_override typed_child_state"
  by (simp_all add: typed_child_state_def get_current_state_def update_environment_def
      add_entity_def EmbodimentLayer_init_def no_updates_def check_human_override_def
      get_or_def first_of_def Let_def)

lemma typed_child_not_recognised: "\<not> is_child typed_child"
  by (simp add: is_child_def typed_child_def no_state_def first_of_def any_in_def
      child_keywords_def str_lower_def lower_char_def)

lemma typed_child_no_weapon:
  "\<not> check_weapon_assistance [restrain_child 100] typed_child_state"
proof -
  have nw: "\<not> is_weapon typed_child"
    by (simp add: is_weapon_def typed_child_def no_state_def get_or_def WEAPON_KEYWORDS_def
        str_lower_def lower_char_def Let_def)
  have nk: "\<not> any_in WEAPON_KEYWORDS (target_str (restrain_child 100))"
    by (simp add: any_in_def WEAPON_KEYWORDS_def target_str_def restrain_child_def
        no_command_def str_lower_def lower_char_def)
  have ty: "type_of (restrain_child 100) = ''MANIPULATE''"
    by (simp add: type_of_def restrain_child_def no_command_def get_or_def)
  show ?thesis
    using nw nk by (simp add: check_weapon_assistance_def typed_child_state_simps
        weapon_rule_def ty)
qed

text \<open>
  C4 fails as stated, in two ways. In the child-harm test of the repository (a child of
  five, typed HUMAN, alone; restrain with force 3) the lethal estimate is 0.85, and the
  lethal-action check, which comes first, answers: the violation returned is not the
  child-harm one. And a lone child that is known by its type field alone, which the
  classification of harm monitoring takes for a child, is not recognised by the
  registry's child test: restraining it with force 100 meets no violation at all.
\<close>

theorem lone_child_counterexample:
  "is_child (child_1 HUMAN)
   \<and> detected_entities (child_test_state HUMAN) = [child_1 HUMAN]
   \<and> str_in (str_lower (entity_id (child_1 HUMAN))) (target_str (restrain_child 3))
   \<and> check_lethal_action [restrain_child 3] (child_test_state HUMAN) = 0.85
   \<and> map_option undeliberable (check_all [restrain_child 3] (child_test_state HUMAN))
       = Some LETHAL_ACTION
   \<and> LETHAL_ACTION \<noteq> CHILD_HARM
   \<and> entity_type typed_child = CHILD
   \<and> get_effective_entity_type typed_child = CHILD
   \<and> \<not> is_child typed_child
   \<and> detected_entities typed_child_state = [typed_child]
   \<and> cmd_type (restrain_child 100) = Some ''MANIPULATE''
   \<and> str_in (str_lower (entity_id typed_child)) (target_str (restrain_child 100))
   \<and> check_all [restrain_child 100] typed_child_state = None"
proof -
  have c: "is_child (child_1 HUMAN)"
    by (simp add: is_child_def child_1_def no_state_def first_of_def)
  have t: "str_in (str_lower (entity_id (child_1 HUMAN))) (target_str (restrain_child 3))"
    by (simp add: restrain_child_def no_command_def target_str_def child_1_def str_lower_def
        lower_char_def)
  have hz: "hazard_flags (child_test_state HUMAN) =
      \<lparr>near_traffic = False, near_heights = False, near_machinery = False, near_water = False\<rparr>"
    by (simp add: hazard_flags_def child_test_state_simps get_or_def Let_def
        str_of_list_def str_lower_def lower_char_def)
  have ag: "any_in aggressive_actions (str_lower (get_or (cmd_action (restrain_child 3)) []))"
    by (simp add: any_in_def aggressive_actions_def restrain_child_def no_command_def get_or_def
        str_lower_def lower_char_def)
  have ms: "manipulate_step 3 (str_lower (get_or (cmd_action (restrain_child 3)) []))
              (target_str (restrain_child 3)) 0 (child_1 HUMAN) = 0.75"
    using t ag by (simp add: manipulate_step_def Let_def)
  have cp: "command_probability (hazard_flags (child_test_state HUMAN)) [child_1 HUMAN]
              (restrain_child 3) = 0.75"
    using ms
    by (simp add: command_probability_def hz type_of_def get_or_def Let_def)
      (simp add: restrain_child_def no_command_def)
  have l: "check_lethal_action [restrain_child 3] (child_test_state HUMAN) = 0.85"
    using cp
    by (simp add: check_lethal_action_def child_test_state_simps Let_def get_or_def
        confidence_step_def)
      (simp add: child_1_def)
  have first: "map_option undeliberable (check_all [restrain_child 3] (child_test_state HUMAN))
       = Some LETHAL_ACTION"
    using l
    by (simp add: check_all_def child_test_state_simps Let_def LETHAL_PROBABILITY_THRESHOLD_def)
  have ty: "entity_type typed_child = CHILD" "get_effective_entity_type typed_child = CHILD"
    by (simp_all add: get_effective_entity_type_def typed_child_def)
  have m: "cmd_type (restrain_child 100) = Some ''MANIPULATE''"
    by (simp add: restrain_child_def no_command_def)
  have tt: "str_in (str_lower (entity_id typed_child)) (target_str (restrain_child 100))"
    by (simp add: restrain_child_def no_command_def target_str_def typed_child_def str_lower_def
        lower_char_def)
  have lz: "check_lethal_action [restrain_child 100] typed_child_state = 0"
    by (simp add: check_lethal_action_def typed_child_state_simps typed_child_def)
  have nh: "\<not> check_child_harm [restrain_child 100] typed_child_state"
    by (simp add: check_child_harm_def typed_child_state_simps typed_child_not_recognised)
  have ni: "\<not> check_identity_deception [restrain_child 100] typed_child_state"
    by (simp add: check_identity_deception_def deception_rule_def type_of_def get_or_def
        restrain_child_def no_command_def)
  have second: "check_all [restrain_child 100] typed_child_state = None"
    using lz nh ni typed_child_no_weapon
    by (simp add: check_all_def typed_child_state_simps Let_def LETHAL_PROBABILITY_THRESHOLD_def)
  show ?thesis
    using c t l first undeliberables_distinct(1) ty typed_child_not_recognised m tt second
    by (simp add: child_test_state_simps typed_child_state_simps)
qed

section \<open>The halt flag\<close>










section \<open>Outcome feedback\<close>

lemma apply_feedback_Cons:
  "apply_feedback cl (u # updates) = apply_feedback (update_from_outcome cl (fst u) (snd u)) updates"
  by (simp add: apply_feedback_def)

lemma weight_after_update:
  "personality_weights (update_from_outcome cl act outc) =
     (personality_weights cl)(aspect act :=
        max 0.1 (min 5.0 (personality_weights cl (aspect act)
                          * adjustment (get_or (quality outc) 0.5))))"
  by (simp add: update_from_outcome_def Let_def MIN_WEIGHT_def MAX_WEIGHT_def)

lemma adjustment_bands:
  assumes "0 \<le> q" and "q \<le> 1"
  shows "(0.7 < q \<longrightarrow> 1.05 \<le> adjustment q \<and> adjustment q \<le> 1.08)
       \<and> (0.5 < q \<and> q \<le> 0.7 \<longrightarrow> 1.01 \<le> adjustment q \<and> adjustment q \<le> 1.05)
       \<and> (q = 0.5 \<longrightarrow> adjustment q = 1)
       \<and> (0.3 \<le> q \<and> q < 0.5 \<longrightarrow> 0.92 \<le> adjustment q \<and> adjustment q \<le> 0.98)
       \<and> (q < 0.3 \<longrightarrow> 0.89 \<le> adjustment q \<and> adjustment q \<le> 0.92)"
  using assms by (auto simp: adjustment_def; argo)

lemma rewarded_weight_grows:
  assumes "list_all (\<lambda>u. aspect (fst u) = a \<longrightarrow> quality (snd u) = Some 0.9) updates"
    and "1 \<le> personality_weights cl a" and "personality_weights cl a \<le> 5"
  shows "1 \<le> personality_weights (apply_feedback cl updates) a
       \<and> personality_weights (apply_feedback cl updates) a \<le> 5
       \<and> (1 < personality_weights cl a \<or> (\<exists>u \<in> set updates. aspect (fst u) = a)
            \<longrightarrow> 1 < personality_weights (apply_feedback cl updates) a)"
  using assms
proof (induction updates arbitrary: cl)
  case Nil
  then show ?case by (simp add: apply_feedback_def)
next
  case (Cons u updates)
  let ?cl = "update_from_outcome cl (fst u) (snd u)"
  have rest: "list_all (\<lambda>u. aspect (fst u) = a \<longrightarrow> quality (snd u) = Some 0.9) updates"
    using Cons.prems(1) by simp
  show ?case
  proof (cases "aspect (fst u) = a")
    case True
    then have q: "quality (snd u) = Some (9 / 10)"
      using Cons.prems(1) by simp
    have w: "personality_weights ?cl a = max 0.1 (min 5.0 (personality_weights cl a * 1.07))"
      using True by (simp add: weight_after_update adjustment_def q get_or_def)
    have b: "1 < personality_weights ?cl a" "personality_weights ?cl a \<le> 5"
      using Cons.prems(2,3) unfolding w by auto
    show ?thesis
      using Cons.IH [OF rest] b by (simp add: apply_feedback_Cons)
  next
    case False
    then have w: "personality_weights ?cl a = personality_weights cl a"
      by (simp add: weight_after_update)
    show ?thesis
      using Cons.IH [OF rest, of ?cl] Cons.prems(2,3) False w
      by (simp add: apply_feedback_Cons)
  qed
qed

lemma punished_weight_shrinks:
  assumes "list_all (\<lambda>u. aspect (fst u) = b \<longrightarrow> quality (snd u) = Some 0.2) updates"
    and "0.1 \<le> personality_weights cl b" and "personality_weights cl b \<le> 1"
  shows "0.1 \<le> personality_weights (apply_feedback cl updates) b
       \<and> personality_weights (apply_feedback cl updates) b \<le> 1
       \<and> (personality_weights cl b < 1 \<or> (\<exists>u \<in> set updates. aspect (fst u) = b)
            \<longrightarrow> personality_weights (apply_feedback cl updates) b < 1)"
  using assms
proof (induction updates arbitrary: cl)
  case Nil
  then show ?case by (simp add: apply_feedback_def)
next
  case (Cons u updates)
  let ?cl = "update_from_outcome cl (fst u) (snd u)"
  have rest: "list_all (\<lambda>u. aspect (fst u) = b \<longrightarrow> quality (snd u) = Some 0.2) updates"
    using Cons.prems(1) by simp
  show ?case
  proof (cases "aspect (fst u) = b")
    case True
    then have q: "quality (snd u) = Some (1 / 5)"
      using Cons.prems(1) by simp
    have w: "personality_weights ?cl b = max 0.1 (min 5.0 (personality_weights cl b * 0.91))"
      using True by (simp add: weight_after_update adjustment_def q get_or_def)
    have bd: "0.1 \<le> personality_weights ?cl b" "personality_weights ?cl b < 1"
      using Cons.prems(2,3) unfolding w by auto
    show ?thesis
      using Cons.IH [OF rest, of ?cl] bd by (simp add: apply_feedback_Cons)
  next
    case False
    then have w: "personality_weights ?cl b = personality_weights cl b"
      by (simp add: weight_after_update)
    show ?thesis
      using Cons.IH [OF rest, of ?cl] Cons.prems(2,3) False w
      by (simp add: apply_feedback_Cons)
  qed
qed

lemma fifty_updates_exist:
  "length (filter P updates) = 50 \<Longrightarrow> \<exists>u \<in> set updates. P u"
  by (metis filter_False length_0_conv zero_neq_numeral)

text \<open>
  C6. From equal weights of 1.0, any series of updates with 50 of quality 0.9 for
  proposer a and 50 of quality 0.2 for proposer b, in any order and with any updates
  for other proposers in between, leaves the weight of a above 1.0 and that of b below
  1.0, both within [0.1, 5.0]. One update multiplies the weight of the acting proposer
  by the adjustment of the quality and clamps the product to [0.1, 5.0]; for a quality
  in [0, 1] the adjustment lies in the band of its quality; the weight of every other
  proposer is left as it is.
\<close>

theorem feedback_diverges_weights:
  assumes "length (filter (\<lambda>u. aspect (fst u) = a) updates) = 50"
    and "length (filter (\<lambda>u. aspect (fst u) = b) updates) = 50"
    and "list_all (\<lambda>u. aspect (fst u) = a \<longrightarrow> quality (snd u) = Some 0.9) updates"
    and "list_all (\<lambda>u. aspect (fst u) = b \<longrightarrow> quality (snd u) = Some 0.2) updates"
    and "0 \<le> q" and "q \<le> 1"
  shows "1 < personality_weights (apply_feedback ConsciousLayer_init updates) a
       \<and> personality_weights (apply_feedback ConsciousLayer_init updates) a \<le> 5
       \<and> 0.1 \<le> personality_weights (apply_feedback ConsciousLayer_init updates) b
       \<and> personality_weights (apply_feedback ConsciousLayer_init updates) b < 1
       \<and> personality_weights (update_from_outcome cl act (quality_of q)) (aspect act) =
           max 0.1 (min 5.0 (personality_weights cl (aspect act) * adjustment q))
       \<and> (\<forall>other. other \<noteq> aspect act \<longrightarrow>
            personality_weights (update_from_outcome cl act outc) other
              = personality_weights cl other)
       \<and> (0.7 < q \<longrightarrow> 1.05 \<le> adjustment q \<and> adjustment q \<le> 1.08)
       \<and> (0.5 < q \<and> q \<le> 0.7 \<longrightarrow> 1.01 \<le> adjustment q \<and> adjustment q \<le> 1.05)
       \<and> (q = 0.5 \<longrightarrow> adjustment q = 1)
       \<and> (0.3 \<le> q \<and> q < 0.5 \<longrightarrow> 0.92 \<le> adjustment q \<and> adjustment q \<le> 0.98)
       \<and> (q < 0.3 \<longrightarrow> 0.89 \<le> adjustment q \<and> adjustment q \<le> 0.92)"
proof -
  have init: "personality_weights ConsciousLayer_init a = 1"
    "personality_weights ConsciousLayer_init b = 1"
    by (simp_all add: ConsciousLayer_init_def)
  have up: "1 < personality_weights (apply_feedback ConsciousLayer_init updates) a
       \<and> personality_weights (apply_feedback ConsciousLayer_init updates) a \<le> 5"
    using rewarded_weight_grows [OF assms(3), of ConsciousLayer_init]
      fifty_updates_exist [OF assms(1)] init by simp
  have down: "0.1 \<le> personality_weights (apply_feedback ConsciousLayer_init updates) b
       \<and> personality_weights (apply_feedback ConsciousLayer_init updates) b < 1"
    using punished_weight_shrinks [OF assms(4), of ConsciousLayer_init]
      fifty_updates_exist [OF assms(2)] init by simp
  have one: "personality_weights (update_from_outcome cl act (quality_of q)) (aspect act) =
           max 0.1 (min 5.0 (personality_weights cl (aspect act) * adjustment q))"
    by (simp add: weight_after_update quality_of_def get_or_def)
  have others: "\<forall>other. other \<noteq> aspect act \<longrightarrow>
            personality_weights (update_from_outcome cl act outc) other
              = personality_weights cl other"
    by (simp add: weight_after_update)
  show ?thesis
    using up down one others adjustment_bands [OF assms(5,6)] by blast
qed

text \<open>Fifty rewards for the guardian, then fifty failures for the explorer.\<close>

theorem feedback_diverges_weights_witness:
  "1 < personality_weights (apply_feedback ConsciousLayer_init
         (replicate 50 (proposal GUARDIAN 0.8 [], quality_of 0.9)
          @ replicate 50 (proposal EXPLORER 0.8 [], quality_of 0.2))) GUARDIAN
   \<and> personality_weights (apply_feedback ConsciousLayer_init
         (replicate 50 (proposal GUARDIAN 0.8 [], quality_of 0.9)
          @ replicate 50 (proposal EXPLORER 0.8 [], quality_of 0.2))) EXPLORER < 1
   \<and> adjustment 0.9 = 1.07 \<and> adjustment 0.2 = 0.91"
proof -
  let ?us = "replicate 50 (proposal GUARDIAN 0.8 [], quality_of 0.9)
          @ replicate 50 (proposal EXPLORER 0.8 [], quality_of 0.2)"
  have a: "length (filter (\<lambda>u. aspect (fst u) = GUARDIAN) ?us) = 50"
    "length (filter (\<lambda>u. aspect (fst u) = EXPLORER) ?us) = 50"
    by (simp_all add: proposal_def)
  have q: "list_all (\<lambda>u. aspect (fst u) = GUARDIAN \<longrightarrow> quality (snd u) = Some 0.9) ?us"
    "list_all (\<lambda>u. aspect (fst u) = EXPLORER \<longrightarrow> quality (snd u) = Some 0.2) ?us"
    by (simp_all add: list_all_iff proposal_def quality_of_def)
  have r: "(0::real) \<le> 0.9" "(0.9::real) \<le> 1"
    by simp_all
  show ?thesis
    using feedback_diverges_weights [OF a q r]
    by (simp add: adjustment_def)
qed

section \<open>The rotating tiebreaker\<close>

lemma UNIV_AspectType: "UNIV = {GUARDIAN, ANALYST, OPTIMIZER, EMPATH, EXPLORER, PRAGMATIST}"
  by (auto intro: AspectType.exhaust)

lemma tied_set_nonempty:
  assumes "permitted \<noteq> []"
  shows "tied_set permitted \<noteq> []"
proof -
  let ?s = "sort_key (\<lambda>a. - vote_strength a) permitted"
  have "?s \<noteq> []"
    using assms by (metis length_0_conv length_sort)
  then have "hd ?s \<in> set ?s"
    by (rule hd_in_set)
  then have "hd ?s \<in> set (tied_set permitted)"
    by (simp add: tied_set_def Let_def TIE_THRESHOLD_def)
  then show ?thesis
    by (metis empty_iff empty_set)
qed

lemma tied_set_length: "length (tied_set permitted) \<le> length permitted"
proof -
  have "length (tied_set permitted) \<le> length (sort_key (\<lambda>a. - vote_strength a) permitted)"
    unfolding tied_set_def Let_def by (rule length_filter_le)
  then show ?thesis by simp
qed

lemma not_tie_cases:
  assumes "\<not> is_tie permitted"
  shows "permitted = [] \<or> length (tied_set permitted) = 1"
proof (cases "permitted = []")
  case True
  then show ?thesis by simp
next
  case False
  then have "length (tied_set permitted) \<noteq> 0"
    using tied_set_nonempty by simp
  moreover have "length (tied_set permitted) < 2"
    using assms by (simp add: is_tie_def)
  ultimately show ?thesis by linarith
qed

lemma is_tie_length: "is_tie permitted \<Longrightarrow> 2 \<le> length permitted \<and> permitted \<noteq> []"
  using tied_set_length [of permitted] by (auto simp: is_tie_def)

text \<open>The index moves only in the tie branch, and there by one position modulo six.\<close>

lemma resolve_votes_index:
  "tiebreaker_index (snd (resolve_votes cl permitted)) =
     (if is_tie permitted \<and> tiebreaker_index cl < 6
      then (tiebreaker_index cl + 1) mod 6 else tiebreaker_index cl)"
proof (cases "is_tie permitted")
  case True
  then have "length (sort_key (\<lambda>a. - vote_strength a) permitted) \<noteq> 1"
    "permitted \<noteq> []" "length (tied_set permitted) \<noteq> 1"
    using is_tie_length [OF True] by (auto simp: is_tie_def)
  then show ?thesis
    using True
    by (auto simp: resolve_votes_def Let_def get_current_tiebreaker_def TIEBREAKER_ORDER_def
        split: sum.splits option.splits)
next
  case False
  then show ?thesis
    using not_tie_cases [OF False]
    by (auto simp: resolve_votes_def Let_def)
qed

lemma resolve_votes_tie:
  assumes "is_tie permitted" and "tiebreaker_index cl < 6"
  shows "fst (resolve_votes cl permitted) =
     (case tiebreaker_choose (TIEBREAKER_ORDER ! tiebreaker_index cl) (tied_set permitted) of
        Inl e \<Rightarrow> Inl e
      | Inr winner \<Rightarrow>
          (case vote_components winner of
             None \<Rightarrow> Inl TypeError
           | Some vc \<Rightarrow>
               Inr (Some (winner\<lparr>vote_components :=
                 Some (vc\<lparr>tiebreaker := Some (TIEBREAKER_ORDER ! tiebreaker_index cl),
                          tied_with := Some (map aspect (tied_set permitted))\<rparr>)\<rparr>))))"
proof -
  have "length (sort_key (\<lambda>a. - vote_strength a) permitted) \<noteq> 1"
    "permitted \<noteq> []" "length (tied_set permitted) \<noteq> 1"
    using is_tie_length [OF assms(1)] assms(1) by (auto simp: is_tie_def)
  then show ?thesis
    using assms(2)
    by (auto simp: resolve_votes_def Let_def get_current_tiebreaker_def TIEBREAKER_ORDER_def
        split: sum.splits option.splits)
qed

lemma resolve_rounds_index:
  assumes "tiebreaker_index cl < 6" and "list_all is_tie rounds"
  shows "tiebreaker_index (snd (resolve_rounds cl rounds)) =
           (tiebreaker_index cl + length rounds) mod 6"
  using assms
proof (induction rounds arbitrary: cl)
  case Nil
  then show ?case by simp
next
  case (Cons permitted rounds)
  let ?cl = "snd (resolve_votes cl permitted)"
  have i: "tiebreaker_index ?cl = (tiebreaker_index cl + 1) mod 6"
    using Cons.prems by (simp add: resolve_votes_index)
  then have lt: "tiebreaker_index ?cl < 6"
    by simp
  have "tiebreaker_index (snd (resolve_rounds ?cl rounds)) =
          (tiebreaker_index ?cl + length rounds) mod 6"
    using Cons.IH [OF lt] Cons.prems(2) by simp
  moreover have "snd (resolve_rounds cl (permitted # rounds)) = snd (resolve_rounds ?cl rounds)"
    by (simp split: prod.splits)
  ultimately show ?case
    by (simp add: i mod_simps)
qed

lemma round_tiebreakers_rotate:
  assumes "tiebreaker_index cl < 6" and "list_all is_tie rounds"
  shows "round_tiebreakers cl rounds =
           map (\<lambda>k. TIEBREAKER_ORDER ! ((tiebreaker_index cl + k) mod 6)) [0..<length rounds]"
  using assms
proof (induction rounds arbitrary: cl)
  case Nil
  then show ?case by simp
next
  case (Cons permitted rounds)
  let ?cl = "snd (resolve_votes cl permitted)"
  have i: "tiebreaker_index ?cl = (tiebreaker_index cl + 1) mod 6"
    using Cons.prems by (simp add: resolve_votes_index)
  then have lt: "tiebreaker_index ?cl < 6"
    by simp
  have shift: "(Suc (tiebreaker_index cl) mod 6 + k) mod 6 = Suc (tiebreaker_index cl + k) mod 6"
    for k
    by (simp add: mod_simps)
  have "round_tiebreakers ?cl rounds =
          map (\<lambda>k. TIEBREAKER_ORDER ! ((tiebreaker_index cl + Suc k) mod 6)) [0..<length rounds]"
    using Cons.IH [OF lt] Cons.prems(2) by (simp add: i shift)
  moreover have "[0..<length (permitted # rounds)] = 0 # map Suc [0..<length rounds]"
    by (simp add: upt_conv_Cons map_Suc_upt del: upt_Suc)
  ultimately show ?case
    using Cons.prems(1) by (simp add: comp_def del: upt_Suc)
qed

lemma six_in_a_row:
  assumes "i < 6"
  shows "distinct (map (\<lambda>k. TIEBREAKER_ORDER ! ((i + k) mod 6)) [0..<6])
       \<and> set (map (\<lambda>k. TIEBREAKER_ORDER ! ((i + k) mod 6)) [0..<6]) = UNIV"
proof -
  have "i = 0 \<or> i = 1 \<or> i = 2 \<or> i = 3 \<or> i = 4 \<or> i = 5"
    using assms by linarith
  then show ?thesis
    by (elim disjE) (simp_all add: upt_rec TIEBREAKER_ORDER_def UNIV_AspectType insert_commute)
qed

lemma six_of_a_map:
  assumes "k + 6 \<le> n"
  shows "take 6 (drop k (map f [0..<n])) = map (\<lambda>j. f (k + j)) [0..<6]"
proof -
  have a: "take 6 (drop k [0..<n]) = [k..<k + 6]"
    using assms by (simp only: drop_upt take_upt add_0)
  have b: "[k..<k + 6] = map (\<lambda>j. k + j) [0..<6]"
    using map_add_upt [of k 6] by (simp only: add.commute)
  have "take 6 (drop k (map f [0..<n])) = map f (take 6 (drop k [0..<n]))"
    by (simp only: take_map drop_map)
  also have "\<dots> = map f (map (\<lambda>j. k + j) [0..<6])"
    by (simp only: a b)
  also have "\<dots> = map (\<lambda>j. f (k + j)) [0..<6]"
    by (simp only: map_map comp_def)
  finally show ?thesis .
qed

lemma six_consecutive:
  assumes "i < 6" and "k + 6 \<le> n"
  shows "take 6 (drop k (map (\<lambda>j. TIEBREAKER_ORDER ! ((i + j) mod 6)) [0..<n]))
           = map (\<lambda>j. TIEBREAKER_ORDER ! (((i + k) mod 6 + j) mod 6)) [0..<6]"
proof -
  have "(i + (k + j)) mod 6 = ((i + k) mod 6 + j) mod 6" for j
    by (simp only: mod_add_left_eq add.assoc)
  then show ?thesis
    by (simp only: six_of_a_map [OF assms(2)])
qed

lemma find_aspect_None: "find (\<lambda>p. aspect p = a) tied = None \<longleftrightarrow> a \<notin> aspect ` set tied"
  by (auto simp: find_None_iff)

lemma choose_ally_first:
  "choose_ally allies tied =
     (case find (\<lambda>a. a \<in> aspect ` set tied) allies of
        None \<Rightarrow> None
      | Some ally \<Rightarrow> find (\<lambda>p. aspect p = ally) tied)"
proof (induction allies)
  case Nil
  then show ?case by simp
next
  case (Cons ally allies)
  show ?case
  proof (cases "find (\<lambda>p. aspect p = ally) tied")
    case None
    then have "ally \<notin> aspect ` set tied"
      by (simp add: find_aspect_None)
    then show ?thesis
      using None Cons by simp
  next
    case (Some p)
    then have "ally \<in> aspect ` set tied"
      using find_aspect_None [of ally tied] by auto
    then show ?thesis
      using Some by simp
  qed
qed

text \<open>
  The choice of the tiebreaker: its own first proposal among the tied ones; failing
  that, the first tied proposal of the first ally of its affinity list that has one;
  failing that, the first tied proposal.
\<close>

lemma tiebreaker_choose_rule:
  "tiebreaker_choose tb tied =
     (case find (\<lambda>p. aspect p = tb) tied of
        Some own \<Rightarrow> Inr own
      | None \<Rightarrow>
          (case find (\<lambda>a. a \<in> aspect ` set tied) (aspect_affinity tb) of
             Some ally \<Rightarrow> Inr (the (find (\<lambda>p. aspect p = ally) tied))
           | None \<Rightarrow> (case tied of [] \<Rightarrow> Inl IndexError | p # ps \<Rightarrow> Inr p)))"
proof (cases "find (\<lambda>p. aspect p = tb) tied")
  case (Some own)
  then show ?thesis by (simp add: tiebreaker_choose_def)
next
  case None
  show ?thesis
  proof (cases "find (\<lambda>a. a \<in> aspect ` set tied) (aspect_affinity tb)")
    case no_ally: None
    then show ?thesis
      using None by (simp add: tiebreaker_choose_def choose_ally_first)
  next
    case (Some ally)
    then have "ally \<in> aspect ` set tied"
      by (auto simp: find_Some_iff)
    then obtain p where "find (\<lambda>p. aspect p = ally) tied = Some p"
      using find_aspect_None [of ally tied] by auto
    then show ?thesis
      using None Some by (simp add: tiebreaker_choose_def choose_ally_first)
  qed
qed

text \<open>
  C7. The rotation is the fixed list of the six proposers. A call of
  \<^verbatim>\<open>resolve_votes\<close> moves the index by one position modulo six exactly when it
  resolves a tie, and never otherwise; through a series of rounds that are all ties the
  tiebreakers on duty follow the list cyclically from the current index, so any six
  consecutive rounds have six different tiebreakers, every proposer once. In a tie the
  result is the choice of the tiebreaker on duty, annotated with its name: its own tied
  proposal, else the tied proposal of its first ally present, else the first tied
  proposal.
\<close>

theorem tiebreaker_rotation:
  assumes "tiebreaker_index cl < 6" and "list_all is_tie rounds"
  shows "round_tiebreakers cl rounds =
           map (\<lambda>k. TIEBREAKER_ORDER ! ((tiebreaker_index cl + k) mod 6)) [0..<length rounds]
       \<and> tiebreaker_index (snd (resolve_rounds cl rounds)) =
           (tiebreaker_index cl + length rounds) mod 6
       \<and> (\<forall>k. k + 6 \<le> length rounds \<longrightarrow>
            distinct (take 6 (drop k (round_tiebreakers cl rounds)))
            \<and> set (take 6 (drop k (round_tiebreakers cl rounds))) = UNIV)
       \<and> tiebreaker_index (snd (resolve_votes cl permitted)) =
           (if is_tie permitted then (tiebreaker_index cl + 1) mod 6 else tiebreaker_index cl)
       \<and> (is_tie permitted \<longrightarrow>
            fst (resolve_votes cl permitted) =
              (case tiebreaker_choose (TIEBREAKER_ORDER ! tiebreaker_index cl) (tied_set permitted) of
                 Inl e \<Rightarrow> Inl e
               | Inr winner \<Rightarrow>
                   (case vote_components winner of
                      None \<Rightarrow> Inl TypeError
                    | Some vc \<Rightarrow>
                        Inr (Some (winner\<lparr>vote_components :=
                          Some (vc\<lparr>tiebreaker := Some (TIEBREAKER_ORDER ! tiebreaker_index cl),
                                   tied_with := Some (map aspect (tied_set permitted))\<rparr>)\<rparr>)))))
       \<and> tiebreaker_choose tb tied =
           (case find (\<lambda>p. aspect p = tb) tied of
              Some own \<Rightarrow> Inr own
            | None \<Rightarrow>
                (case find (\<lambda>a. a \<in> aspect ` set tied) (aspect_affinity tb) of
                   Some ally \<Rightarrow> Inr (the (find (\<lambda>p. aspect p = ally) tied))
                 | None \<Rightarrow> (case tied of [] \<Rightarrow> Inl IndexError | p # ps \<Rightarrow> Inr p)))"
proof -
  have rot: "round_tiebreakers cl rounds =
           map (\<lambda>k. TIEBREAKER_ORDER ! ((tiebreaker_index cl + k) mod 6)) [0..<length rounds]"
    by (rule round_tiebreakers_rotate [OF assms])
  have six: "distinct (take 6 (drop k (round_tiebreakers cl rounds)))
            \<and> set (take 6 (drop k (round_tiebreakers cl rounds))) = UNIV"
    if "k + 6 \<le> length rounds" for k
  proof -
    have "(tiebreaker_index cl + k) mod 6 < 6"
      by simp
    then show ?thesis
      using six_in_a_row [of "(tiebreaker_index cl + k) mod 6"]
      unfolding rot six_consecutive [OF assms(1) that] by blast
  qed
  have idx: "tiebreaker_index (snd (resolve_votes cl permitted)) =
           (if is_tie permitted then (tiebreaker_index cl + 1) mod 6 else tiebreaker_index cl)"
    using assms(1) by (simp add: resolve_votes_index)
  have tie: "is_tie permitted \<longrightarrow>
            fst (resolve_votes cl permitted) =
              (case tiebreaker_choose (TIEBREAKER_ORDER ! tiebreaker_index cl) (tied_set permitted) of
                 Inl e \<Rightarrow> Inl e
               | Inr winner \<Rightarrow>
                   (case vote_components winner of
                      None \<Rightarrow> Inl TypeError
                    | Some vc \<Rightarrow>
                        Inr (Some (winner\<lparr>vote_components :=
                          Some (vc\<lparr>tiebreaker := Some (TIEBREAKER_ORDER ! tiebreaker_index cl),
                                   tied_with := Some (map aspect (tied_set permitted))\<rparr>)\<rparr>))))"
    using resolve_votes_tie [OF _ assms(1)] by (rule impI)
  have all_six: "\<forall>k. k + 6 \<le> length rounds \<longrightarrow>
            distinct (take 6 (drop k (round_tiebreakers cl rounds)))
            \<and> set (take 6 (drop k (round_tiebreakers cl rounds))) = UNIV"
    using six by (intro allI impI)
  show ?thesis
    by (intro conjI rot resolve_rounds_index [OF assms] all_six idx tie
        tiebreaker_choose_rule)
qed

lemma tied_pair_is_tie: "is_tie tied_pair"
  by (simp add: is_tie_def tied_set_def tied_pair_def proposal_def Let_def TIE_THRESHOLD_def)

text \<open>
  Seven ties in a row from a fresh layer: the guardian comes back after all six; in
  the first of them the guardian, not tied itself, picks the proposal of its ally, the
  analyst.
\<close>

theorem tiebreaker_rotation_witness:
  "round_tiebreakers ConsciousLayer_init (replicate 7 tied_pair) =
     [GUARDIAN, EMPATH, ANALYST, PRAGMATIST, OPTIMIZER, EXPLORER, GUARDIAN]
   \<and> tiebreaker_index (snd (resolve_rounds ConsciousLayer_init (replicate 7 tied_pair))) = 1
   \<and> tiebreaker_choose GUARDIAN tied_pair = Inr (proposal ANALYST 0.5 [])"
proof -
  have i: "tiebreaker_index ConsciousLayer_init < 6"
    by (simp add: ConsciousLayer_init_def)
  have t: "list_all is_tie (replicate 7 tied_pair)"
    by (simp add: list_all_iff tied_pair_is_tie)
  have z: "tiebreaker_index ConsciousLayer_init = 0"
    by (simp add: ConsciousLayer_init_def)
  show ?thesis
    using tiebreaker_rotation [OF i t, of tied_pair GUARDIAN tied_pair]
    by (simp add: z upt_rec TIEBREAKER_ORDER_def tied_pair_def proposal_def)
qed

section \<open>History retrieval\<close>

lemma jaccard_le_one: "finite A \<Longrightarrow> finite B \<Longrightarrow> real (card (A \<inter> B)) / real (card (A \<union> B)) \<le> 1"
proof -
  assume f: "finite A" "finite B"
  have "card (A \<inter> B) \<le> card (A \<union> B)"
    using f by (intro card_mono) auto
  then show ?thesis
    by (cases "card (A \<union> B) = 0") (simp_all add: divide_le_eq_1)
qed

lemma drive_score_formula:
  "drive_score current past =
     0.25 * jaccard 0 (set (involved_drives current)) (set (involved_drives past))"
  by (auto simp: drive_score_def jaccard_def Let_def)

lemma type_score_formula:
  "type_score current past =
     0.20 * jaccard 1 (entity_type ` set (relevant_entities current))
              (entity_type ` set (relevant_entities past))"
  by (auto simp: type_score_def jaccard_def Let_def)

lemma emotion_score_formula:
  "emotion_score current past_record =
     0.10 * indicator (map_option primary_emotion (emotional_value past_record)
                        = Some (predict_emotion_category current))"
  by (auto simp: emotion_score_def indicator_def split: option.splits)

lemma compute_similarity_formula:
  "compute_similarity current past_record = spec_similarity 0 1 current past_record"
  by (simp add: compute_similarity_def spec_similarity_def Let_def drive_score_formula
      type_score_formula emotion_score_formula trigger_score_def severity_score_def
      indicator_def)

lemma score_bounds:
  "0 \<le> severity_score current past" "severity_score current past \<le> 0.2"
  "0 \<le> type_score current past" "type_score current past \<le> 0.2"
  "0 \<le> emotion_score current past_record" "emotion_score current past_record \<le> 0.1"
  "0 \<le> drive_score current past"
proof -
  show "0 \<le> severity_score current past" "severity_score current past \<le> 0.2"
    by (simp_all add: severity_score_def Let_def)
  have "real (card (entity_type ` set (relevant_entities current)
                    \<inter> entity_type ` set (relevant_entities past)))
        / real (card (entity_type ` set (relevant_entities current)
                      \<union> entity_type ` set (relevant_entities past))) \<le> 1"
    by (rule jaccard_le_one) simp_all
  then show "0 \<le> type_score current past" "type_score current past \<le> 0.2"
    by (simp_all add: type_score_def Let_def)
  show "0 \<le> emotion_score current past_record" "emotion_score current past_record \<le> 0.1"
    by (simp_all add: emotion_score_def split: option.splits)
  show "0 \<le> drive_score current past"
    by (simp add: drive_score_def Let_def)
qed

lemma similar_outranks_dissimilar:
  assumes "trigger_type (impetus similar) = trigger_type current"
    and "set (involved_drives (impetus similar)) = set (involved_drives current)"
    and "involved_drives current \<noteq> []"
    and "\<bar>severity current - severity (impetus similar)\<bar> \<le> 1 / 2"
    and "trigger_type (impetus dissimilar) \<noteq> trigger_type current"
    and "set (involved_drives (impetus dissimilar)) \<inter> set (involved_drives current) = {}"
  shows "compute_similarity current dissimilar + 1 / 10 \<le> compute_similarity current similar"
proof -
  have ne: "set (involved_drives current) \<noteq> {}"
    using assms(3) by simp
  then have "card (set (involved_drives current)) \<noteq> 0"
    by simp
  then have ds: "drive_score current (impetus similar) = 0.25"
    using ne assms(2) by (simp add: drive_score_def Let_def)
  have ts: "trigger_score current (impetus similar) = 0.25"
    using assms(1) by (simp add: trigger_score_def)
  have ss: "1 / 10 \<le> severity_score current (impetus similar)"
    using assms(4) by (simp add: severity_score_def Let_def)
  have hi: "6 / 10 \<le> compute_similarity current similar"
    using ds ts ss score_bounds(3) [of current "impetus similar"]
      score_bounds(5) [of current similar]
    by (simp add: compute_similarity_def Let_def)
  have "set (involved_drives current) \<inter> set (involved_drives (impetus dissimilar)) = {}"
    using assms(6) by auto
  then have dd: "drive_score current (impetus dissimilar) = 0"
    by (simp add: drive_score_def Let_def)
  have td: "trigger_score current (impetus dissimilar) = 0"
    using assms(5) by (auto simp: trigger_score_def)
  have lo: "compute_similarity current dissimilar \<le> 0.5"
    using dd td score_bounds(2) [of current "impetus dissimilar"]
      score_bounds(4) [of current "impetus dissimilar"] score_bounds(6) [of current dissimilar]
    by (simp add: compute_similarity_def Let_def)
  show ?thesis
    using hi lo by argo
qed

text \<open>The three stages of retrieval: score and sort, cut, filter.\<close>

lemma retrieve_unfold:
  "retrieve_relevant_history sl imp n =
     map snd (filter (\<lambda>x. 0.2 \<le> fst x)
       (take n (sort_key (\<lambda>x. - fst x)
          (map (\<lambda>incident. (compute_similarity imp incident, incident)) (incident_history sl)))))"
  by (simp add: retrieve_relevant_history_def Let_def)

lemma scored_pairs:
  assumes "x \<in> set (filter (\<lambda>x. 0.2 \<le> fst x)
       (take n (sort_key (\<lambda>x. - fst x)
          (map (\<lambda>incident. (compute_similarity imp incident, incident)) hist))))"
  shows "fst x = compute_similarity imp (snd x)" and "0.2 \<le> fst x" and "snd x \<in> set hist"
proof -
  have t: "x \<in> set (take n (sort_key (\<lambda>x. - fst x)
          (map (\<lambda>incident. (compute_similarity imp incident, incident)) hist)))"
    and f: "0.2 \<le> fst x"
    using assms by simp_all
  from t have "x \<in> set (sort_key (\<lambda>x. - fst x)
          (map (\<lambda>incident. (compute_similarity imp incident, incident)) hist))"
    by (rule in_set_takeD)
  then have "x \<in> (\<lambda>incident. (compute_similarity imp incident, incident)) ` set hist"
    by simp
  then show "fst x = compute_similarity imp (snd x)" and "snd x \<in> set hist"
    by auto
  show "0.2 \<le> fst x" by (rule f)
qed

lemma retrieve_sorted:
  "sorted_wrt (\<lambda>a b. compute_similarity imp b \<le> compute_similarity imp a)
     (retrieve_relevant_history sl imp n)"
proof -
  let ?scored = "map (\<lambda>incident. (compute_similarity imp incident, incident)) (incident_history sl)"
  let ?F = "filter (\<lambda>x. 0.2 \<le> fst x) (take n (sort_key (\<lambda>x. - fst x) ?scored))"
  have "sorted (map (\<lambda>x. - fst x) (sort_key (\<lambda>x. - fst x) ?scored))"
    by (rule sorted_sort_key)
  then have "sorted_wrt (\<lambda>x y. - fst x \<le> - fst y) (sort_key (\<lambda>x. - fst x) ?scored)"
    by (simp only: sorted_map)
  then have "sorted_wrt (\<lambda>x y. - fst x \<le> - fst y) (take n (sort_key (\<lambda>x. - fst x) ?scored))"
    by (rule sorted_wrt_take)
  then have "sorted_wrt (\<lambda>x y. - fst x \<le> - fst y) ?F"
    by (rule sorted_wrt_filter)
  then have "sorted_wrt (\<lambda>x y. compute_similarity imp (snd y) \<le> compute_similarity imp (snd x)) ?F"
  proof (rule sorted_wrt_mono_rel [rotated])
    fix x y
    assume "x \<in> set ?F" "y \<in> set ?F" "- fst x \<le> - fst y"
    then show "compute_similarity imp (snd y) \<le> compute_similarity imp (snd x)"
      using scored_pairs(1) [of x n imp "incident_history sl"]
        scored_pairs(1) [of y n imp "incident_history sl"] by simp
  qed
  then show ?thesis
    by (simp only: retrieve_unfold sorted_wrt_map)
qed

lemma retrieve_basic:
  "length (retrieve_relevant_history sl imp n) \<le> n"
  "list_all (\<lambda>r. 0.2 \<le> compute_similarity imp r) (retrieve_relevant_history sl imp n)"
  "set (retrieve_relevant_history sl imp n) \<subseteq> set (incident_history sl)"
proof -
  let ?S = "take n (sort_key (\<lambda>x. - fst x)
          (map (\<lambda>incident. (compute_similarity imp incident, incident)) (incident_history sl)))"
  have "length (filter (\<lambda>x. 0.2 \<le> fst x) ?S) \<le> length ?S"
    by (rule length_filter_le)
  also have "\<dots> \<le> n"
    by simp
  finally show "length (retrieve_relevant_history sl imp n) \<le> n"
    by (simp only: retrieve_unfold length_map)
  show "list_all (\<lambda>r. 0.2 \<le> compute_similarity imp r) (retrieve_relevant_history sl imp n)"
    unfolding retrieve_unfold list_all_iff
  proof
    fix r
    assume "r \<in> set (map snd (filter (\<lambda>x. 0.2 \<le> fst x) ?S))"
    then obtain x where x: "x \<in> set (filter (\<lambda>x. 0.2 \<le> fst x) ?S)" and r: "r = snd x"
      by auto
    show "0.2 \<le> compute_similarity imp r"
      using scored_pairs(1,2) [OF x] r by simp
  qed
  show "set (retrieve_relevant_history sl imp n) \<subseteq> set (incident_history sl)"
    unfolding retrieve_unfold
  proof
    fix r
    assume "r \<in> set (map snd (filter (\<lambda>x. 0.2 \<le> fst x) ?S))"
    then obtain x where x: "x \<in> set (filter (\<lambda>x. 0.2 \<le> fst x) ?S)" and r: "r = snd x"
      by auto
    show "r \<in> set (incident_history sl)"
      using scored_pairs(3) [OF x] r by simp
  qed
qed

lemma key_in_map: "x \<in> set xs \<Longrightarrow> f x \<in> set (map f xs)"
  by simp

lemma retrieve_keeps_better:
  assumes "compute_similarity imp d < compute_similarity imp s"
    and "s \<in> set (incident_history sl)"
    and "d \<in> set (retrieve_relevant_history sl imp n)"
  shows "s \<in> set (retrieve_relevant_history sl imp n)"
proof -
  let ?scored = "map (\<lambda>incident. (compute_similarity imp incident, incident)) (incident_history sl)"
  let ?sorted = "sort_key (\<lambda>x. - fst x) ?scored"
  let ?S = "take n ?sorted"
  let ?F = "filter (\<lambda>x. 0.2 \<le> fst x) ?S"
  have "d \<in> snd ` set ?F"
    using assms(3) by (simp only: retrieve_unfold list.set_map)
  then obtain x where x: "x \<in> set ?F" "snd x = d"
    by auto
  have xs: "x \<in> set ?S" "fst x = compute_similarity imp d" "0.2 \<le> fst x"
    using x scored_pairs(1,2) [OF x(1)] by simp_all
  let ?p = "(compute_similarity imp s, s)"
  have pin: "?p \<in> set ?sorted"
    using assms(2) by simp
  have srt: "sorted (map (\<lambda>x. - fst x) (?S @ drop n ?sorted))"
    by (simp only: append_take_drop_id sorted_sort_key)
  have "?p \<in> set ?S"
  proof (rule ccontr)
    assume "?p \<notin> set ?S"
    then have "?p \<in> set (drop n ?sorted)"
      using pin by (metis Un_iff append_take_drop_id set_append)
    moreover have "\<forall>a \<in> set (map (\<lambda>x. - fst x) ?S).
                     \<forall>b \<in> set (map (\<lambda>x. - fst x) (drop n ?sorted)). a \<le> b"
      using srt unfolding map_append sorted_append by blast
    moreover have "- fst x \<in> set (map (\<lambda>x. - fst x) ?S)"
      using xs(1) by (rule key_in_map)
    ultimately have "- fst x \<le> - fst ?p"
      using key_in_map [of ?p "drop n ?sorted" "\<lambda>x. - fst x"] by blast
    then show False
      using xs(2) assms(1) by simp
  qed
  moreover have "0.2 \<le> fst ?p"
    using xs(2,3) assms(1) by simp
  ultimately have "?p \<in> set ?F"
    by simp
  then have "snd ?p \<in> snd ` set ?F"
    by (rule imageI)
  then show ?thesis
    by (simp only: retrieve_unfold list.set_map snd_conv)
qed

lemma sorted_positions:
  assumes "sorted_wrt (\<lambda>a b. f b \<le> f a) xs" and "(f d :: real) < f s"
    and "i < length xs" and "j < length xs" and "xs ! i = s" and "xs ! j = d"
  shows "i < j"
proof (rule ccontr)
  assume "\<not> i < j"
  then consider "i = j" | "j < i" by linarith
  then show False
  proof cases
    case 1
    then show ?thesis using assms(2,5,6) by simp
  next
    case 2
    then have "f (xs ! i) \<le> f (xs ! j)"
      using sorted_wrt_nth_less [OF assms(1) 2 assms(3)] by simp
    then show ?thesis using assms(2,5,6) by simp
  qed
qed

text \<open>
  C8, as amended. The score is the weighted sum of the specification, with the
  overlap of two empty sets taken as 0 for the drives and as 1 for the entity types.
  Retrieval returns at most five records, each scoring at least 0.2, in descending
  order of score. A record with the trigger type and the drive of the current impetus
  and a close severity, at most 0.5 away, scores at least 0.1 more than every record
  with another trigger type and no drive in common; so whenever the latter is
  retrieved, the former, if it is in the history at all, is retrieved too and stands
  before it, wherever the two stand in the history.
\<close>

theorem retrieval_ranks_by_similarity:
  assumes "trigger_type (impetus similar) = trigger_type current"
    and "set (involved_drives (impetus similar)) = set (involved_drives current)"
    and "involved_drives current \<noteq> []"
    and "\<bar>severity current - severity (impetus similar)\<bar> \<le> 1 / 2"
    and "trigger_type (impetus dissimilar) \<noteq> trigger_type current"
    and "set (involved_drives (impetus dissimilar)) \<inter> set (involved_drives current) = {}"
  shows "compute_similarity current past_record = spec_similarity 0 1 current past_record
       \<and> length (retrieve_relevant_history sl current 5) \<le> 5
       \<and> list_all (\<lambda>r. 0.2 \<le> compute_similarity current r)
            (retrieve_relevant_history sl current 5)
       \<and> sorted_wrt (\<lambda>a b. compute_similarity current b \<le> compute_similarity current a)
            (retrieve_relevant_history sl current 5)
       \<and> compute_similarity current dissimilar + 1 / 10 \<le> compute_similarity current similar
       \<and> compute_similarity current dissimilar < compute_similarity current similar
       \<and> (similar \<in> set (incident_history sl)
            \<and> dissimilar \<in> set (retrieve_relevant_history sl current 5)
          \<longrightarrow> similar \<in> set (retrieve_relevant_history sl current 5))
       \<and> (\<forall>i j. i < length (retrieve_relevant_history sl current 5)
                \<and> j < length (retrieve_relevant_history sl current 5)
                \<and> retrieve_relevant_history sl current 5 ! i = similar
                \<and> retrieve_relevant_history sl current 5 ! j = dissimilar
              \<longrightarrow> i < j)"
proof -
  have margin: "compute_similarity current dissimilar + 1 / 10
                  \<le> compute_similarity current similar"
    by (rule similar_outranks_dissimilar [OF assms])
  then have better: "compute_similarity current dissimilar < compute_similarity current similar"
    by argo
  have keep: "similar \<in> set (incident_history sl)
            \<and> dissimilar \<in> set (retrieve_relevant_history sl current 5)
          \<longrightarrow> similar \<in> set (retrieve_relevant_history sl current 5)"
    using retrieve_keeps_better [OF better] by blast
  have before: "\<forall>i j. i < length (retrieve_relevant_history sl current 5)
                \<and> j < length (retrieve_relevant_history sl current 5)
                \<and> retrieve_relevant_history sl current 5 ! i = similar
                \<and> retrieve_relevant_history sl current 5 ! j = dissimilar
              \<longrightarrow> i < j"
    using sorted_positions [OF retrieve_sorted better] by blast
  show ?thesis
    by (intro conjI compute_similarity_formula retrieve_basic(1,2) retrieve_sorted
        margin better keep before)
qed

lemma scenario_scores:
  "compute_similarity (test_impetus ''conflict'' [REDUCE_HARM] (1 / 2)) similar_incident = 0.88"
  "compute_similarity (test_impetus ''conflict'' [REDUCE_HARM] (1 / 2)) dissimilar_incident = 0.4"
  by (simp_all add: compute_similarity_def trigger_score_def drive_score_def severity_score_def
      type_score_def emotion_score_def similar_incident_def dissimilar_incident_def
      test_incident_def test_impetus_def Let_def)

text \<open>
  The similar incident is returned before the more recent, dissimilar one, which
  stands first in the history.
\<close>

theorem retrieval_ranks_by_similarity_witness:
  "retrieve_relevant_history two_incidents (test_impetus ''conflict'' [REDUCE_HARM] (1 / 2)) 5
     = [similar_incident, dissimilar_incident]
   \<and> incident_history two_incidents = [dissimilar_incident, similar_incident]
   \<and> compute_similarity (test_impetus ''conflict'' [REDUCE_HARM] (1 / 2)) dissimilar_incident
       < compute_similarity (test_impetus ''conflict'' [REDUCE_HARM] (1 / 2)) similar_incident
   \<and> timestamp (impetus similar_incident) < timestamp (impetus dissimilar_incident)"
proof -
  let ?cur = "test_impetus ''conflict'' [REDUCE_HARM] (1 / 2)"
  have h: "trigger_type (impetus similar_incident) = trigger_type ?cur"
    "set (involved_drives (impetus similar_incident)) = set (involved_drives ?cur)"
    "involved_drives ?cur \<noteq> []"
    "\<bar>severity ?cur - severity (impetus similar_incident)\<bar> \<le> 1 / 2"
    "trigger_type (impetus dissimilar_incident) \<noteq> trigger_type ?cur"
    "set (involved_drives (impetus dissimilar_incident)) \<inter> set (involved_drives ?cur) = {}"
    by (simp_all add: similar_incident_def dissimilar_incident_def test_incident_def
        test_impetus_def)
  have r: "retrieve_relevant_history two_incidents ?cur 5
             = [similar_incident, dissimilar_incident]"
    by (simp add: retrieve_unfold two_incidents_def SubconsciousLayer_init_def scenario_scores)
  have t: "timestamp (impetus similar_incident) < timestamp (impetus dissimilar_incident)"
    by (simp add: similar_incident_def dissimilar_incident_def test_incident_def)
  have i: "incident_history two_incidents = [dissimilar_incident, similar_incident]"
    by (simp add: two_incidents_def)
  show ?thesis
    using retrieval_ranks_by_similarity [OF h, of similar_incident two_incidents] r t i
    by simp
qed

text \<open>
  C8 fails as stated: no single value of the overlap of two empty sets fits both the
  drive term and the entity-type term. With neither drives nor entities on either side
  the value would have to be 4/9; with disjoint drives and no entities it would have
  to be 1.
\<close>

theorem uniform_overlap_counterexample:
  "\<not> (\<exists>j. compute_similarity (test_impetus ''conflict'' [] 0)
              (test_incident 0 ''opportunity'' [] 0)
            = spec_similarity j j (test_impetus ''conflict'' [] 0)
                (test_incident 0 ''opportunity'' [] 0)
          \<and> compute_similarity (test_impetus ''conflict'' [REDUCE_HARM] 0)
              (test_incident 0 ''opportunity'' [IMPROVE] 0)
            = spec_similarity j j (test_impetus ''conflict'' [REDUCE_HARM] 0)
                (test_incident 0 ''opportunity'' [IMPROVE] 0))"
proof
  assume "\<exists>j. compute_similarity (test_impetus ''conflict'' [] 0)
              (test_incident 0 ''opportunity'' [] 0)
            = spec_similarity j j (test_impetus ''conflict'' [] 0)
                (test_incident 0 ''opportunity'' [] 0)
          \<and> compute_similarity (test_impetus ''conflict'' [REDUCE_HARM] 0)
              (test_incident 0 ''opportunity'' [IMPROVE] 0)
            = spec_similarity j j (test_impetus ''conflict'' [REDUCE_HARM] 0)
                (test_incident 0 ''opportunity'' [IMPROVE] 0)"
  then obtain j where
    a: "compute_similarity (test_impetus ''conflict'' [] 0)
              (test_incident 0 ''opportunity'' [] 0)
            = spec_similarity j j (test_impetus ''conflict'' [] 0)
                (test_incident 0 ''opportunity'' [] 0)"
    and b: "compute_similarity (test_impetus ''conflict'' [REDUCE_HARM] 0)
              (test_incident 0 ''opportunity'' [IMPROVE] 0)
            = spec_similarity j j (test_impetus ''conflict'' [REDUCE_HARM] 0)
                (test_incident 0 ''opportunity'' [IMPROVE] 0)"
    by blast
  have "0.4 = 0.2 + 0.45 * j"
    using a
    by (simp add: compute_similarity_def trigger_score_def drive_score_def severity_score_def
        type_score_def emotion_score_def spec_similarity_def jaccard_def indicator_def
        test_incident_def test_impetus_def Let_def)
  moreover have "0.4 = 0.2 + 0.2 * j"
    using b
    by (simp add: compute_similarity_def trigger_score_def drive_score_def severity_score_def
        type_score_def emotion_score_def spec_similarity_def jaccard_def indicator_def
        test_incident_def test_impetus_def Let_def predict_emotion_category_def)
  ultimately show False
    by simp
qed

end
